theory Spec2Isabelle
  imports Complex_Main
begin

section \<open>Strings\<close>

text \<open>
  The drop simulator (\<^verbatim>\<open>src/dropSimulator.js\<close>) parses drop tables from wiki markup,
  keeps them in a cache and simulates kills. Its functions are modelled as functions of
  HOL: the cache, the random draws, the clock and the answers of the wiki are arguments and
  results. Strings are modelled as \<^typ>\<open>string\<close> holding ASCII text; the white space of
  \<^verbatim>\<open>trim\<close>, \<^verbatim>\<open>parseInt\<close> and the regular-expression class \<^verbatim>\<open>\s\<close> is
  the ASCII white space (tab, line feed, vertical tab, form feed, carriage return, space).
  JavaScript numbers are modelled as \<^typ>\<open>real\<close> (and as \<^typ>\<open>int\<close> or \<^typ>\<open>nat\<close>
  where the program only ever holds such numbers: quantities, loot totals, the number of
  kills): rounding of doubles, \<^verbatim>\<open>NaN\<close> and the infinities are outside the model, except
  that the \<^verbatim>\<open>NaN\<close> of \<^verbatim>\<open>parseInt\<close> is \<^const>\<open>None\<close>. An integer of the model
  is the number that the program holds as long as it is at most \<open>2 ^ 53\<close> in absolute value;
  where a statement below gives the exact value of a number that is read from text or summed
  in the loot, it carries this bound.
\<close>

definition isSpace :: "char \<Rightarrow> bool" where
  "isSpace c = (c \<in> set [CHR 0x09, CHR 0x0A, CHR 0x0B, CHR 0x0C, CHR 0x0D, CHR '' ''])"

definition toLowerChar :: "char \<Rightarrow> char" where
  "toLowerChar c =
     (case map_of (zip ''ABCDEFGHIJKLMNOPQRSTUVWXYZ'' ''abcdefghijklmnopqrstuvwxyz'') c of
        Some d \<Rightarrow> d | None \<Rightarrow> c)"

definition toLowerCase :: "string \<Rightarrow> string" where
  "toLowerCase s = map toLowerChar s"

definition trim :: "string \<Rightarrow> string" where
  "trim s = rev (dropWhile isSpace (rev (dropWhile isSpace s)))"

fun startsWith :: "string \<Rightarrow> string \<Rightarrow> bool" where
  "startsWith s [] = True"
| "startsWith [] (p # ps) = False"
| "startsWith (c # cs) (p # ps) = (c = p \<and> startsWith cs ps)"

text \<open>\<^verbatim>\<open>s.includes(sub)\<close>: \<open>sub\<close> occurs in \<open>s\<close> as a contiguous substring.\<close>

fun includesStr :: "string \<Rightarrow> string \<Rightarrow> bool" where
  "includesStr [] sub = (sub = [])"
| "includesStr (c # cs) sub = (startsWith (c # cs) sub \<or> includesStr cs sub)"

text \<open>\<^verbatim>\<open>s.split(sep)\<close> for a separator of one character; the result is never empty.\<close>

fun split :: "char \<Rightarrow> string \<Rightarrow> string list" where
  "split sep [] = [[]]"
| "split sep (c # cs) =
     (if c = sep then [] # split sep cs
      else (case split sep cs of p # ps \<Rightarrow> (c # p) # ps | [] \<Rightarrow> [[c]]))"

subsection \<open>parseInt\<close>

definition digitVal :: "char \<Rightarrow> nat option" where
  "digitVal c = map_of (zip ''0123456789'' [0 ..< 10]) c"

definition hexVal :: "char \<Rightarrow> nat option" where
  "hexVal c = map_of (zip ''0123456789abcdef'' [0 ..< 16]) (toLowerChar c)"

text \<open>The value of the longest prefix of digits in the given radix; \<^const>\<open>None\<close> when that
  prefix is empty.\<close>

fun digitsPrefix :: "(char \<Rightarrow> nat option) \<Rightarrow> nat \<Rightarrow> nat option \<Rightarrow> string \<Rightarrow> nat option" where
  "digitsPrefix dv radix acc [] = acc"
| "digitsPrefix dv radix acc (c # cs) =
     (case dv c of
        None \<Rightarrow> acc
      | Some v \<Rightarrow> digitsPrefix dv radix (Some ((case acc of None \<Rightarrow> 0 | Some a \<Rightarrow> a) * radix + v)) cs)"

text \<open>
  \<^verbatim>\<open>parseInt(s)\<close> without a radix: leading white space is skipped, a sign is read, a
  prefix \<^verbatim>\<open>0x\<close> or \<^verbatim>\<open>0X\<close> selects radix 16, and the longest prefix of digits is
  the value; with no digit the result is \<^verbatim>\<open>NaN\<close>, here \<^const>\<open>None\<close>. The value
  here is the exact integer that the digits denote. The program holds the double nearest to
  it: the same number for a value of at most \<open>2 ^ 53\<close>, and a rounded one beyond
  (\<^verbatim>\<open>parseInt('9007199254740993')\<close> is \<open>9007199254740992\<close>).
\<close>

definition parseUnsigned :: "string \<Rightarrow> nat option" where
  "parseUnsigned s =
     (case s of
        c # x # rest \<Rightarrow>
          (if c = CHR ''0'' \<and> (x = CHR ''x'' \<or> x = CHR ''X'') then digitsPrefix hexVal 16 None rest
           else digitsPrefix digitVal 10 None s)
      | _ \<Rightarrow> digitsPrefix digitVal 10 None s)"

definition parseInt :: "string \<Rightarrow> int option" where
  "parseInt s =
     (case dropWhile isSpace s of
        [] \<Rightarrow> None
      | c # cs \<Rightarrow>
          (if c = CHR ''-'' then map_option (\<lambda>n. - int n) (parseUnsigned cs)
           else if c = CHR ''+'' then map_option int (parseUnsigned cs)
           else map_option int (parseUnsigned (c # cs))))"

text \<open>\<^verbatim>\<open>parseInt(s) || dflt\<close>: \<^verbatim>\<open>NaN\<close> and \<open>0\<close> are falsy.\<close>

definition parseIntOr :: "string \<Rightarrow> int \<Rightarrow> int" where
  "parseIntOr s dflt = (case parseInt s of None \<Rightarrow> dflt | Some n \<Rightarrow> if n = 0 then dflt else n)"

section \<open>Regular expressions\<close>

text \<open>
  The patterns of the parser use literal characters, character classes, greedy and lazy
  repetition of one character class, an optional character, capture groups without nesting
  and an alternation of two literal strings. \<open>rxm\<close> is the backtracking matcher of
  JavaScript on that fragment: it matches the items in order at the start of the string,
  a greedy repetition trying the longest run first and a lazy one the shortest, and
  returns the rest of the string with the captured groups.
\<close>

datatype catom = Lit char | Digit | Space | NonSpace

datatype cset = Set "catom list" | NotSet "catom list" | Dot

datatype item =
    Ch cset
  | Rep cset nat bool
  | Opt cset
  | Open
  | Close
  | Alt string string

fun inAtom :: "bool \<Rightarrow> catom \<Rightarrow> char \<Rightarrow> bool" where
  "inAtom ci (Lit x) c = (if ci then toLowerChar x = toLowerChar c else x = c)"
| "inAtom ci Digit c = (digitVal c \<noteq> None)"
| "inAtom ci Space c = isSpace c"
| "inAtom ci NonSpace c = (\<not> isSpace c)"

fun inSet :: "bool \<Rightarrow> cset \<Rightarrow> char \<Rightarrow> bool" where
  "inSet ci (Set as) c = list_ex (\<lambda>a. inAtom ci a c) as"
| "inSet ci (NotSet as) c = (\<not> list_ex (\<lambda>a. inAtom ci a c) as)"
| "inSet ci Dot c = (c \<noteq> CHR 0x0A \<and> c \<noteq> CHR 0x0D)"

fun startsWithCi :: "bool \<Rightarrow> string \<Rightarrow> string \<Rightarrow> bool" where
  "startsWithCi ci s [] = True"
| "startsWithCi ci [] (p # ps) = False"
| "startsWithCi ci (c # cs) (p # ps) = (inAtom ci (Lit p) c \<and> startsWithCi ci cs ps)"

fun rxm :: "bool \<Rightarrow> item list \<Rightarrow> string \<Rightarrow> string list \<Rightarrow> string list \<Rightarrow> (string \<times> string list) option" where
  "rxm ci [] s st caps = Some (s, caps)"
| "rxm ci (Ch cs # r) s st caps =
     (case s of [] \<Rightarrow> None | c # s' \<Rightarrow> if inSet ci cs c then rxm ci r s' st caps else None)"
| "rxm ci (Rep cs mn True # r) s st caps =
     (case (case s of [] \<Rightarrow> None
            | c # s' \<Rightarrow> if inSet ci cs c then rxm ci (Rep cs (mn - 1) True # r) s' st caps else None) of
        Some x \<Rightarrow> Some x
      | None \<Rightarrow> if mn = 0 then rxm ci r s st caps else None)"
| "rxm ci (Rep cs mn False # r) s st caps =
     (case (if mn = 0 then rxm ci r s st caps else None) of
        Some x \<Rightarrow> Some x
      | None \<Rightarrow>
          (case s of [] \<Rightarrow> None
           | c # s' \<Rightarrow> if inSet ci cs c then rxm ci (Rep cs (mn - 1) False # r) s' st caps else None))"
| "rxm ci (Opt cs # r) s st caps =
     (case (case s of [] \<Rightarrow> None | c # s' \<Rightarrow> if inSet ci cs c then rxm ci r s' st caps else None) of
        Some x \<Rightarrow> Some x
      | None \<Rightarrow> rxm ci r s st caps)"
| "rxm ci (Open # r) s st caps = rxm ci r s (s # st) caps"
| "rxm ci (Close # r) s st caps =
     (case st of [] \<Rightarrow> None
      | s0 # st' \<Rightarrow> rxm ci r s st' (caps @ [take (length s0 - length s) s0]))"
| "rxm ci (Alt a b # r) s st caps =
     (case (if startsWithCi ci s a then rxm ci r (drop (length a) s) st caps else None) of
        Some x \<Rightarrow> Some x
      | None \<Rightarrow> if startsWithCi ci s b then rxm ci r (drop (length b) s) st caps else None)"

text \<open>A literal string as a pattern.\<close>

definition lit :: "string \<Rightarrow> item list" where
  "lit s = map (\<lambda>c. Ch (Set [Lit c])) s"

text \<open>\<^verbatim>\<open>s.match(re)\<close> and one \<^verbatim>\<open>re.exec(s)\<close>: the leftmost match, as its captured
  groups and the text after the match.\<close>

fun rxsearch :: "bool \<Rightarrow> item list \<Rightarrow> string \<Rightarrow> (string list \<times> string) option" where
  "rxsearch ci p [] = (case rxm ci p [] [] [] of Some (rest, caps) \<Rightarrow> Some (caps, rest) | None \<Rightarrow> None)"
| "rxsearch ci p (c # cs) =
     (case rxm ci p (c # cs) [] [] of
        Some (rest, caps) \<Rightarrow> Some (caps, rest)
      | None \<Rightarrow> rxsearch ci p cs)"

text \<open>
  The loop \<^verbatim>\<open>while ((match = re.exec(s)) !== null)\<close> over a global pattern: every
  match from left to right, each search starting where the last match ended. Every pattern
  of the program begins with a literal character, so a match is never empty and the text
  left to search gets shorter.
\<close>

function execAll :: "bool \<Rightarrow> item list \<Rightarrow> string \<Rightarrow> string list list" where
  "execAll ci p s =
     (case rxsearch ci p s of
        None \<Rightarrow> []
      | Some (caps, rest) \<Rightarrow> if length rest < length s then caps # execAll ci p rest else [caps])"
  by pat_completeness auto
termination
  by (relation "measure (\<lambda>(ci, p, s). length s)") auto

declare execAll.simps [simp del]

text \<open>\<^verbatim>\<open>s.replace(re, '')\<close> with a global pattern: every match is removed.\<close>

function removeMatches :: "item list \<Rightarrow> string \<Rightarrow> string" where
  "removeMatches p s =
     (case rxm False p s [] [] of
        Some (rest, caps) \<Rightarrow> if length rest < length s then removeMatches p rest else s
      | None \<Rightarrow> (case s of [] \<Rightarrow> [] | c # s' \<Rightarrow> c # removeMatches p s'))"
  by pat_completeness auto
termination
  by (relation "measure (\<lambda>(p, s). length s)") auto

declare removeMatches.simps [simp del]

section \<open>Objects used as tables\<close>

text \<open>
  The program uses two plain objects as tables from strings to numbers: the table of textual
  rarities in \<^verbatim>\<open>parseRarity\<close> and the loot of a simulation. A read \<^verbatim>\<open>obj[key]\<close> of
  a plain object also finds the members that every object inherits from
  \<^verbatim>\<open>Object.prototype\<close>, which are functions or objects and not numbers:
  \<^verbatim>\<open>rarityMap['constructor'] || 128\<close> is a function, and
  \<^verbatim>\<open>(loot['toString'] || 0) + 3\<close> is a string. These are their names. Both tables are
  modelled as maps that hold the written or added keys only, so the model is that of the
  program for every key that is not one of these names, and the statements about a value read
  from either table require that of the key.
\<close>

definition objectMembers :: "string list" where
  "objectMembers =
     [''constructor'', ''__defineGetter__'', ''__defineSetter__'', ''hasOwnProperty'',
      ''__lookupGetter__'', ''__lookupSetter__'', ''isPrototypeOf'', ''propertyIsEnumerable'',
      ''toString'', ''valueOf'', ''__proto__'', ''toLocaleString'']"

section \<open>Quantity and rarity\<close>

record quantity =
  qmin :: int
  qmax :: int

text \<open>The pattern \<^verbatim>\<open>/\s*\([^)]+\)/g\<close> of notes such as \<^verbatim>\<open>(noted)\<close>.\<close>

definition notePattern :: "item list" where
  "notePattern =
     [Rep (Set [Space]) 0 True, Ch (Set [Lit (CHR ''('')]),
      Rep (NotSet [Lit (CHR '')'')]) 1 True, Ch (Set [Lit (CHR '')'')])]"

definition parseQuantity :: "string \<Rightarrow> quantity" where
  "parseQuantity quantityStr =
     (if quantityStr = [] then \<lparr>qmin = 1, qmax = 1\<rparr>
      else
        let cleaned = trim (removeMatches notePattern quantityStr) in
        if cleaned = [] then \<lparr>qmin = 1, qmax = 1\<rparr>
        else if CHR ''-'' \<in> set cleaned then
          (let parts = split (CHR ''-'') cleaned;
               mn = parseIntOr (parts ! 0) 1;
               mx = parseIntOr (parts ! 1) mn
           in \<lparr>qmin = min mn mx, qmax = max mn mx\<rparr>)
        else
          (let qty = parseIntOr cleaned 1 in \<lparr>qmin = qty, qmax = qty\<rparr>))"

text \<open>
  The table of textual rarities, with the keys written in the object literal. It is the
  table of the program at every key outside \<^const>\<open>objectMembers\<close>; of these names, the
  lower-case ones (\<^verbatim>\<open>constructor\<close>, \<^verbatim>\<open>__proto__\<close>) can reach the read in
  \<^verbatim>\<open>parseRarity\<close>, which then returns a function or an object and not a number.
\<close>

definition rarityMap :: "string \<rightharpoonup> real" where
  "rarityMap =
     map_of [(''always'', 1), (''common'', 8), (''uncommon'', 32), (''rare'', 128),
             (''very rare'', 512), (''very_rare'', 512)]"

text \<open>The branch for the fraction format such as \<^verbatim>\<open>1/512\<close>; \<^const>\<open>None\<close> when the
  code falls through to the later cases.\<close>

definition fractionRarity :: "string \<Rightarrow> real option" where
  "fractionRarity cleaned =
     (if CHR ''/'' \<in> set cleaned then
        (let parts = split (CHR ''/'') cleaned;
             numerator = parseIntOr (parts ! 0) 1;
             denominator = parseIntOr (parts ! 1) 1
         in if denominator > 0 \<and> numerator > 0
            then Some (real_of_int denominator / real_of_int numerator) else None)
      else None)"

text \<open>\<^verbatim>\<open>rarityMap[lowerRarity] || 128\<close>; no value of the table is falsy.\<close>

definition textRarity :: "string \<Rightarrow> real" where
  "textRarity cleaned = (case rarityMap (toLowerCase cleaned) of Some v \<Rightarrow> v | None \<Rightarrow> 128)"

definition parseRarity :: "string \<Rightarrow> real" where
  "parseRarity rarityStr =
     (if rarityStr = [] then 128
      else
        let cleaned = trim rarityStr in
        (case fractionRarity cleaned of
           Some v \<Rightarrow> v
         | None \<Rightarrow>
             (case parseInt cleaned of
                Some numericValue \<Rightarrow>
                  if numericValue > 0 then real_of_int numericValue else textRarity cleaned
              | None \<Rightarrow> textRarity cleaned)))"


section \<open>Drop tables\<close>

record drop =
  item :: string
  quantity :: quantity
  rarity :: real
  rarityText :: string

text \<open>\<open>uniqueTableChance\<close> is \<^const>\<open>None\<close> for \<^verbatim>\<open>null\<close>.\<close>

record drop_table =
  name :: string
  always :: "drop list"
  main :: "drop list"
  uniques :: "drop list"
  tertiary :: "drop list"
  mainTableRolls :: nat
  uniqueTableChance :: "real option"

subsection \<open>Fallback drop data\<close>

definition getCerberusHardcodedDrops :: drop_table where
  "getCerberusHardcodedDrops =
     \<lparr>name = ''Cerberus'',
      always = [
        \<lparr>item = ''Infernal ashes'', quantity = \<lparr>qmin = 1, qmax = 1\<rparr>, rarity = 1, rarityText = ''Always''\<rparr>],
      main = [
        \<lparr>item = ''Rune platebody'', quantity = \<lparr>qmin = 1, qmax = 1\<rparr>, rarity = 26, rarityText = ''5/130''\<rparr>,
        \<lparr>item = ''Rune chainbody'', quantity = \<lparr>qmin = 1, qmax = 1\<rparr>, rarity = 325 / 10, rarityText = ''4/130''\<rparr>,
        \<lparr>item = ''Rune 2h sword'', quantity = \<lparr>qmin = 1, qmax = 1\<rparr>, rarity = 325 / 10, rarityText = ''4/130''\<rparr>,
        \<lparr>item = ''Black d'' @ [CHR 0x27] @ ''hide body'', quantity = \<lparr>qmin = 1, qmax = 1\<rparr>, rarity = 4333 / 100, rarityText = ''3/130''\<rparr>,
        \<lparr>item = ''Rune axe'', quantity = \<lparr>qmin = 1, qmax = 1\<rparr>, rarity = 4333 / 100, rarityText = ''3/130''\<rparr>,
        \<lparr>item = ''Rune pickaxe'', quantity = \<lparr>qmin = 1, qmax = 1\<rparr>, rarity = 4333 / 100, rarityText = ''3/130''\<rparr>,
        \<lparr>item = ''Battlestaff'', quantity = \<lparr>qmin = 6, qmax = 6\<rparr>, rarity = 4333 / 100, rarityText = ''3/130''\<rparr>,
        \<lparr>item = ''Rune full helm'', quantity = \<lparr>qmin = 1, qmax = 1\<rparr>, rarity = 4333 / 100, rarityText = ''3/130''\<rparr>,
        \<lparr>item = ''Lava battlestaff'', quantity = \<lparr>qmin = 1, qmax = 1\<rparr>, rarity = 65, rarityText = ''2/130''\<rparr>,
        \<lparr>item = ''Rune halberd'', quantity = \<lparr>qmin = 1, qmax = 1\<rparr>, rarity = 65, rarityText = ''2/130''\<rparr>,
        \<lparr>item = ''Fire rune'', quantity = \<lparr>qmin = 300, qmax = 300\<rparr>, rarity = 2167 / 100, rarityText = ''6/130''\<rparr>,
        \<lparr>item = ''Soul rune'', quantity = \<lparr>qmin = 100, qmax = 100\<rparr>, rarity = 2167 / 100, rarityText = ''6/130''\<rparr>,
        \<lparr>item = ''Pure essence'', quantity = \<lparr>qmin = 300, qmax = 300\<rparr>, rarity = 26, rarityText = ''5/130''\<rparr>,
        \<lparr>item = ''Blood rune'', quantity = \<lparr>qmin = 60, qmax = 60\<rparr>, rarity = 325 / 10, rarityText = ''4/130''\<rparr>,
        \<lparr>item = ''Cannonball'', quantity = \<lparr>qmin = 50, qmax = 50\<rparr>, rarity = 325 / 10, rarityText = ''4/130''\<rparr>,
        \<lparr>item = ''Runite bolts (unf)'', quantity = \<lparr>qmin = 40, qmax = 40\<rparr>, rarity = 325 / 10, rarityText = ''4/130''\<rparr>,
        \<lparr>item = ''Death rune'', quantity = \<lparr>qmin = 100, qmax = 100\<rparr>, rarity = 4333 / 100, rarityText = ''3/130''\<rparr>,
        \<lparr>item = ''Coal'', quantity = \<lparr>qmin = 120, qmax = 120\<rparr>, rarity = 2167 / 100, rarityText = ''6/130''\<rparr>,
        \<lparr>item = ''Super restore(4)'', quantity = \<lparr>qmin = 2, qmax = 2\<rparr>, rarity = 2167 / 100, rarityText = ''6/130''\<rparr>,
        \<lparr>item = ''Summer pie'', quantity = \<lparr>qmin = 3, qmax = 3\<rparr>, rarity = 2167 / 100, rarityText = ''6/130''\<rparr>,
        \<lparr>item = ''Coins'', quantity = \<lparr>qmin = 10000, qmax = 20000\<rparr>, rarity = 26, rarityText = ''5/130''\<rparr>,
        \<lparr>item = ''Dragon bones'', quantity = \<lparr>qmin = 20, qmax = 20\<rparr>, rarity = 26, rarityText = ''5/130''\<rparr>,
        \<lparr>item = ''Unholy symbol'', quantity = \<lparr>qmin = 1, qmax = 1\<rparr>, rarity = 26, rarityText = ''5/130''\<rparr>,
        \<lparr>item = ''Wine of zamorak'', quantity = \<lparr>qmin = 15, qmax = 15\<rparr>, rarity = 26, rarityText = ''5/130''\<rparr>,
        \<lparr>item = ''Ashes'', quantity = \<lparr>qmin = 50, qmax = 50\<rparr>, rarity = 325 / 10, rarityText = ''4/130''\<rparr>,
        \<lparr>item = ''Fire orb'', quantity = \<lparr>qmin = 20, qmax = 20\<rparr>, rarity = 325 / 10, rarityText = ''4/130''\<rparr>,
        \<lparr>item = ''Grimy torstol'', quantity = \<lparr>qmin = 6, qmax = 6\<rparr>, rarity = 325 / 10, rarityText = ''4/130''\<rparr>,
        \<lparr>item = ''Runite ore'', quantity = \<lparr>qmin = 5, qmax = 5\<rparr>, rarity = 4333 / 100, rarityText = ''3/130''\<rparr>,
        \<lparr>item = ''Uncut diamond'', quantity = \<lparr>qmin = 5, qmax = 5\<rparr>, rarity = 4333 / 100, rarityText = ''3/130''\<rparr>,
        \<lparr>item = ''Torstol seed'', quantity = \<lparr>qmin = 3, qmax = 3\<rparr>, rarity = 65, rarityText = ''2/130''\<rparr>,
        \<lparr>item = ''Ranarr seed'', quantity = \<lparr>qmin = 2, qmax = 2\<rparr>, rarity = 65, rarityText = ''2/130''\<rparr>,
        \<lparr>item = ''Key master teleport'', quantity = \<lparr>qmin = 7, qmax = 7\<rparr>, rarity = 65, rarityText = ''2/130''\<rparr>],
      uniques = [
        \<lparr>item = ''Primordial crystal'', quantity = \<lparr>qmin = 1, qmax = 1\<rparr>, rarity = 520, rarityText = ''1/520''\<rparr>,
        \<lparr>item = ''Pegasian crystal'', quantity = \<lparr>qmin = 1, qmax = 1\<rparr>, rarity = 520, rarityText = ''1/520''\<rparr>,
        \<lparr>item = ''Eternal crystal'', quantity = \<lparr>qmin = 1, qmax = 1\<rparr>, rarity = 520, rarityText = ''1/520''\<rparr>,
        \<lparr>item = ''Smouldering stone'', quantity = \<lparr>qmin = 1, qmax = 1\<rparr>, rarity = 520, rarityText = ''1/520''\<rparr>],
      tertiary = [
        \<lparr>item = ''Ensouled hellhound head'', quantity = \<lparr>qmin = 1, qmax = 1\<rparr>, rarity = 15, rarityText = ''1/15''\<rparr>,
        \<lparr>item = ''Clue scroll (elite)'', quantity = \<lparr>qmin = 1, qmax = 1\<rparr>, rarity = 100, rarityText = ''1/100''\<rparr>,
        \<lparr>item = ''Jar of souls'', quantity = \<lparr>qmin = 1, qmax = 1\<rparr>, rarity = 2000, rarityText = ''1/2000''\<rparr>,
        \<lparr>item = ''Hellpuppy'', quantity = \<lparr>qmin = 1, qmax = 1\<rparr>, rarity = 3000, rarityText = ''1/3000''\<rparr>],
      mainTableRolls = 2,
      uniqueTableChance = Some (1 / 130)\<rparr>"

text \<open>The table for the King Black Dragon, an object literal inside
  \<^verbatim>\<open>getFallbackDropData\<close>.\<close>

definition kingBlackDragonDrops :: drop_table where
  "kingBlackDragonDrops =
     \<lparr>name = ''King Black Dragon'',
      always = [
        \<lparr>item = ''Dragon bones'', quantity = \<lparr>qmin = 1, qmax = 1\<rparr>, rarity = 1, rarityText = ''Always''\<rparr>],
      main = [
        \<lparr>item = ''Coins'', quantity = \<lparr>qmin = 1000, qmax = 6000\<rparr>, rarity = 4, rarityText = ''Common''\<rparr>,
        \<lparr>item = ''Adamant platebody'', quantity = \<lparr>qmin = 1, qmax = 1\<rparr>, rarity = 64, rarityText = ''Uncommon''\<rparr>,
        \<lparr>item = ''Rune longsword'', quantity = \<lparr>qmin = 1, qmax = 1\<rparr>, rarity = 64, rarityText = ''Uncommon''\<rparr>],
      uniques = [
        \<lparr>item = ''Dragon pickaxe'', quantity = \<lparr>qmin = 1, qmax = 1\<rparr>, rarity = 1500, rarityText = ''1/1500''\<rparr>,
        \<lparr>item = ''Kbd heads'', quantity = \<lparr>qmin = 1, qmax = 1\<rparr>, rarity = 128, rarityText = ''1/128''\<rparr>],
      tertiary = [
        \<lparr>item = ''Clue scroll (elite)'', quantity = \<lparr>qmin = 1, qmax = 1\<rparr>, rarity = 450, rarityText = ''1/450''\<rparr>],
      mainTableRolls = 1,
      uniqueTableChance = None\<rparr>"

definition getFallbackDropData :: "string \<Rightarrow> drop_table option" where
  "getFallbackDropData monsterName =
     (let name' = toLowerCase monsterName in
      if includesStr name' ''cerberus'' then Some getCerberusHardcodedDrops
      else if includesStr name' ''kbd'' \<or> includesStr name' ''king black dragon''
      then Some kingBlackDragonDrops
      else None)"


section \<open>Parsing wiki markup\<close>

subsection \<open>The patterns\<close>

definition grp :: "item list \<Rightarrow> item list" where
  "grp p = Open # p @ [Close]"

definition notOf :: "string \<Rightarrow> cset" where
  "notOf cs = NotSet (map Lit cs)"

definition ws :: item where
  "ws = Rep (Set [Space]) 0 True"

definition digits :: item where
  "digits = Rep (Set [Digit]) 1 True"

text \<open>\<^verbatim>\<open>([\s\S]*?)\<close> and \<^verbatim>\<open>.*?\<close>\<close>

definition lazyAll :: "item list" where
  "lazyAll = grp [Rep (Set [Space, NonSpace]) 0 False]"

definition lazyDots :: item where
  "lazyDots = Rep Dot 0 False"

text \<open>A pattern with its flag \<^verbatim>\<open>i\<close>.\<close>

type_synonym pattern = "bool \<times> item list"

text \<open>\<^verbatim>\<open>/{{DropsLine\|name=([^|]+)\|quantity=([^|]+)\|rarity=([^|}]+)[^}]*}}/g\<close>\<close>

definition dropsLine :: pattern where
  "dropsLine =
     (False,
      lit ''{{DropsLine|name='' @ grp [Rep (notOf ''|'') 1 True] @
      lit ''|quantity='' @ grp [Rep (notOf ''|'') 1 True] @
      lit ''|rarity='' @ grp [Rep (notOf ''|}'') 1 True] @
      [Rep (notOf ''}'') 0 True] @ lit ''}}'')"

text \<open>\<^verbatim>\<open>/''There is a ([\d/]+) chance of hitting the unique drop table/i\<close>\<close>

definition uniqueTable :: pattern where
  "uniqueTable =
     (True,
      lit ([CHR 0x27, CHR 0x27] @ ''There is a '') @
      grp [Rep (Set [Digit, Lit (CHR ''/'')]) 1 True] @
      lit '' chance of hitting the unique drop table'')"

text \<open>\<^verbatim>\<open>/unique drop table.*?([\d/]+)/i\<close>\<close>

definition uniqueTableAlt :: pattern where
  "uniqueTableAlt =
     (True,
      lit ''unique drop table'' @ [lazyDots] @ grp [Rep (Set [Digit, Lit (CHR ''/'')]) 1 True])"

text \<open>\<^verbatim>\<open>/main drop table.*?(\d+) times?/i\<close>\<close>

definition mainTableRollsPattern :: pattern where
  "mainTableRollsPattern =
     (True,
      lit ''main drop table'' @ [lazyDots] @ grp [digits] @ lit '' time'' @
      [Opt (Set [Lit (CHR ''s'')])])"

text \<open>\<^verbatim>\<open>/===Tertiary===([\s\S]*?)(?:===|{{DropsTableBottom}})/\<close>,
  \<^verbatim>\<open>/===100%===([\s\S]*?)(?:===|{{DropsTableBottom}})/\<close>,
  \<^verbatim>\<open>/===Uniques===([\s\S]*?)(?:===|{{DropsTableBottom}})/\<close>\<close>

definition tertiarySection :: pattern where
  "tertiarySection =
     (False, lit ''===Tertiary==='' @ lazyAll @ [Alt ''==='' ''{{DropsTableBottom}}''])"

definition alwaysSection :: pattern where
  "alwaysSection =
     (False, lit ''===100%==='' @ lazyAll @ [Alt ''==='' ''{{DropsTableBottom}}''])"

definition uniquesSection :: pattern where
  "uniquesSection =
     (False, lit ''===Uniques==='' @ lazyAll @ [Alt ''==='' ''{{DropsTableBottom}}''])"

text \<open>\<^verbatim>\<open>/{{drops\s*line\|([^|}]+)\|([^|}]+)\|([^|}]+)[^}]*}}/gi\<close>\<close>

definition dropsLineAlt1 :: pattern where
  "dropsLineAlt1 =
     (True,
      lit ''{{drops'' @ [ws] @ lit ''line|'' @ grp [Rep (notOf ''|}'') 1 True] @
      lit ''|'' @ grp [Rep (notOf ''|}'') 1 True] @
      lit ''|'' @ grp [Rep (notOf ''|}'') 1 True] @
      [Rep (notOf ''}'') 0 True] @ lit ''}}'')"

text \<open>\<^verbatim>\<open>/{{drop\|item=([^|]+)\|quantity=([^|]+)\|rarity=([^|}]+)[^}]*}}/gi\<close>\<close>

definition dropsLineAlt2 :: pattern where
  "dropsLineAlt2 =
     (True,
      lit ''{{drop|item='' @ grp [Rep (notOf ''|'') 1 True] @
      lit ''|quantity='' @ grp [Rep (notOf ''|'') 1 True] @
      lit ''|rarity='' @ grp [Rep (notOf ''|}'') 1 True] @
      [Rep (notOf ''}'') 0 True] @ lit ''}}'')"

text \<open>\<^verbatim>\<open>/\|\s*([^|]+)\s*\|\|\s*([^|]+)\s*\|\|\s*([^|]+)/g\<close>, the table format\<close>

definition dropsLineAlt3 :: pattern where
  "dropsLineAlt3 =
     (False,
      lit ''|'' @ [ws] @ grp [Rep (notOf ''|'') 1 True] @ [ws] @
      lit ''||'' @ [ws] @ grp [Rep (notOf ''|'') 1 True] @ [ws] @
      lit ''||'' @ [ws] @ grp [Rep (notOf ''|'') 1 True])"

text \<open>\<^verbatim>\<open>/===\s*Always\s*===([\s\S]*?)(?:===|{{)/i\<close>,
  \<^verbatim>\<open>/===\s*100\s*%\s*===([\s\S]*?)(?:===|{{)/i\<close>\<close>

definition alwaysSectionAlt1 :: pattern where
  "alwaysSectionAlt1 =
     (True, lit ''==='' @ [ws] @ lit ''Always'' @ [ws] @ lit ''==='' @ lazyAll @ [Alt ''==='' ''{{''])"

definition alwaysSectionAlt2 :: pattern where
  "alwaysSectionAlt2 =
     (True,
      lit ''==='' @ [ws] @ lit ''100'' @ [ws] @ lit ''%'' @ [ws] @ lit ''==='' @ lazyAll @
      [Alt ''==='' ''{{''])"

text \<open>\<^verbatim>\<open>/===\s*Rare\s*drop\s*table\s*===([\s\S]*?)(?:===|{{)/i\<close>,
  \<^verbatim>\<open>/===\s*Unique\s*drops?\s*===([\s\S]*?)(?:===|{{)/i\<close>,
  \<^verbatim>\<open>/===\s*Tertiary\s*drops?\s*===([\s\S]*?)(?:===|{{)/i\<close>\<close>

definition uniquesSectionAlt1 :: pattern where
  "uniquesSectionAlt1 =
     (True,
      lit ''==='' @ [ws] @ lit ''Rare'' @ [ws] @ lit ''drop'' @ [ws] @ lit ''table'' @ [ws] @
      lit ''==='' @ lazyAll @ [Alt ''==='' ''{{''])"

definition uniquesSectionAlt2 :: pattern where
  "uniquesSectionAlt2 =
     (True,
      lit ''==='' @ [ws] @ lit ''Unique'' @ [ws] @ lit ''drop'' @ [Opt (Set [Lit (CHR ''s'')])] @
      [ws] @ lit ''==='' @ lazyAll @ [Alt ''==='' ''{{''])"

definition tertiarySectionAlt1 :: pattern where
  "tertiarySectionAlt1 =
     (True,
      lit ''==='' @ [ws] @ lit ''Tertiary'' @ [ws] @ lit ''drop'' @ [Opt (Set [Lit (CHR ''s'')])] @
      [ws] @ lit ''==='' @ lazyAll @ [Alt ''==='' ''{{''])"

text \<open>\<^verbatim>\<open>/(\d+\/\d+).*?chance.*?unique/i\<close> and \<^verbatim>\<open>/unique.*?(\d+\/\d+)/i\<close>\<close>

definition uniqueTableAlt2 :: pattern where
  "uniqueTableAlt2 =
     (True,
      grp ([digits] @ lit ''/'' @ [digits]) @ [lazyDots] @ lit ''chance'' @ [lazyDots] @
      lit ''unique'')"

definition uniqueTableAlt3 :: pattern where
  "uniqueTableAlt3 = (True, lit ''unique'' @ [lazyDots] @ grp ([digits] @ lit ''/'' @ [digits]))"

text \<open>\<^verbatim>\<open>s.match(pattern)\<close>, as the captured groups of the first match, and the loop
  over \<^verbatim>\<open>pattern.exec(s)\<close>.\<close>

definition matchOf :: "pattern \<Rightarrow> string \<Rightarrow> string list option" where
  "matchOf p s = map_option fst (rxsearch (fst p) (snd p) s)"

definition matchesOf :: "pattern \<Rightarrow> string \<Rightarrow> string list list" where
  "matchesOf p s = execAll (fst p) (snd p) s"

text \<open>\<^verbatim>\<open>a || b\<close> on match results.\<close>

definition orElse :: "'a option \<Rightarrow> 'a option \<Rightarrow> 'a option" where
  "orElse a b = (case a of Some x \<Rightarrow> Some x | None \<Rightarrow> b)"

subsection \<open>Sections and the main table\<close>

text \<open>The drop pushed for one match of the primary line pattern.\<close>

definition dropOfMatch :: "string list \<Rightarrow> drop" where
  "dropOfMatch m =
     \<lparr>item = m ! 0, quantity = parseQuantity (m ! 1), rarity = parseRarity (m ! 2),
      rarityText = m ! 2\<rparr>"

text \<open>The drops pushed by the loop of \<^verbatim>\<open>tryAlternativeParsing\<close> over the matches of one
  alternative pattern.\<close>

definition altDropsOf :: "string list list \<Rightarrow> drop list" where
  "altDropsOf ms =
     map (\<lambda>m. \<lparr>item = trim (m ! 0), quantity = parseQuantity (m ! 1),
                rarity = parseRarity (m ! 2),
                rarityText = (if m ! 2 = [] then ''Unknown'' else m ! 2)\<rparr>)
       (filter (\<lambda>m. trim (m ! 0) \<noteq> [] \<and> CHR ''='' \<notin> set (m ! 0)) ms)"

fun tryPatterns :: "pattern list \<Rightarrow> string \<Rightarrow> drop list \<Rightarrow> drop list" where
  "tryPatterns [] content targetArray = targetArray"
| "tryPatterns (p # ps) content targetArray =
     (let targetArray' = targetArray @ altDropsOf (matchesOf p content) in
      if length targetArray' > 0 then targetArray' else tryPatterns ps content targetArray')"

definition tryAlternativeParsing :: "string \<Rightarrow> drop list \<Rightarrow> drop list" where
  "tryAlternativeParsing content targetArray =
     tryPatterns [dropsLineAlt1, dropsLineAlt2, dropsLineAlt3] content targetArray"

text \<open>\<open>parseSection\<close> returns the target array as the code leaves it.\<close>

definition parseSection :: "string \<Rightarrow> drop list \<Rightarrow> drop list" where
  "parseSection sectionContent targetArray =
     (if sectionContent = [] then targetArray
      else
        let ms = matchesOf dropsLine sectionContent;
            targetArray' = targetArray @ map dropOfMatch ms
        in if length ms = 0 then tryAlternativeParsing sectionContent targetArray'
           else targetArray')"

definition inOtherTables :: "drop_table \<Rightarrow> string \<Rightarrow> bool" where
  "inOtherTables drops itemName =
     (list_ex (\<lambda>d. item d = itemName) (always drops) \<or>
      list_ex (\<lambda>d. item d = itemName) (uniques drops) \<or>
      list_ex (\<lambda>d. item d = itemName) (tertiary drops))"

definition parseMainDropTable :: "string \<Rightarrow> drop_table \<Rightarrow> drop_table" where
  "parseMainDropTable wikiContent drops =
     (let found = filter (\<lambda>m. \<not> inOtherTables drops (m ! 0)) (matchesOf dropsLine wikiContent);
          drops' = drops\<lparr>main := main drops @ map dropOfMatch found\<rparr>
      in if length found = 0 then
           drops'\<lparr>main :=
             filter (\<lambda>mainDrop. \<not> inOtherTables drops' (item mainDrop))
               (tryAlternativeParsing wikiContent (main drops'))\<rparr>
         else drops')"

subsection \<open>parseDropTables\<close>

text \<open>The chance read from the text of a match of one of the unique-table patterns.\<close>

definition chanceOfRate :: "string \<Rightarrow> real option" where
  "chanceOfRate rateStr =
     (if CHR ''/'' \<in> set rateStr then
        (let parts = split (CHR ''/'') rateStr in
         case (parseInt (parts ! 0), parseInt (parts ! 1)) of
           (Some num, Some denom) \<Rightarrow>
             if num > 0 \<and> denom > 0 then Some (real_of_int num / real_of_int denom) else None
         | _ \<Rightarrow> None)
      else None)"

text \<open>The first part of \<open>parseDropTables\<close>: the sections of the always, unique and
  tertiary drops, each found by the first of its patterns that matches.\<close>

definition parseSections :: "string \<Rightarrow> drop_table \<Rightarrow> drop_table" where
  "parseSections wikiContent drops0 =
     (let alwaysMatch = orElse (matchOf alwaysSection wikiContent)
                          (orElse (matchOf alwaysSectionAlt1 wikiContent)
                             (matchOf alwaysSectionAlt2 wikiContent));
          drops1 = (case alwaysMatch of
                      Some m \<Rightarrow> drops0\<lparr>always := parseSection (m ! 0) (always drops0)\<rparr>
                    | None \<Rightarrow> drops0);
          uniquesMatch = orElse (matchOf uniquesSection wikiContent)
                           (orElse (matchOf uniquesSectionAlt1 wikiContent)
                              (matchOf uniquesSectionAlt2 wikiContent));
          drops2 = (case uniquesMatch of
                      Some m \<Rightarrow> drops1\<lparr>uniques := parseSection (m ! 0) (uniques drops1)\<rparr>
                    | None \<Rightarrow> drops1);
          tertiaryMatch = orElse (matchOf tertiarySection wikiContent)
                            (matchOf tertiarySectionAlt1 wikiContent)
      in (case tertiaryMatch of
            Some m \<Rightarrow> drops2\<lparr>tertiary := parseSection (m ! 0) (tertiary drops2)\<rparr>
          | None \<Rightarrow> drops2))"

text \<open>The second part: the chance of the unique table, the number of rolls of the main
  table, and the defaults for Cerberus.\<close>

definition parseMechanics :: "string \<Rightarrow> string \<Rightarrow> drop_table \<Rightarrow> drop_table" where
  "parseMechanics wikiContent monsterName drops3 =
     (let uniqueTableMatch = orElse (matchOf uniqueTable wikiContent)
                               (orElse (matchOf uniqueTableAlt wikiContent)
                                  (orElse (matchOf uniqueTableAlt2 wikiContent)
                                     (matchOf uniqueTableAlt3 wikiContent)));
          drops4 = (case uniqueTableMatch of
                      Some m \<Rightarrow>
                        (case chanceOfRate (m ! 0) of
                           Some ch \<Rightarrow> drops3\<lparr>uniqueTableChance := Some ch\<rparr>
                         | None \<Rightarrow> drops3)
                    | None \<Rightarrow> drops3);
          drops5 = (case matchOf mainTableRollsPattern wikiContent of
                      Some m \<Rightarrow> drops4\<lparr>mainTableRolls := nat (parseIntOr (m ! 0) 1)\<rparr>
                    | None \<Rightarrow> drops4)
      in if includesStr (toLowerCase monsterName) ''cerberus''
         then drops5\<lparr>mainTableRolls := 2,
                uniqueTableChance :=
                  (case uniqueTableChance drops5 of
                     Some ch \<Rightarrow> if ch = 0 then Some (1 / 130) else Some ch
                   | None \<Rightarrow> Some (1 / 130))\<rparr>
         else drops5)"

definition parseDropTables :: "string \<Rightarrow> string \<Rightarrow> drop_table" where
  "parseDropTables wikiContent monsterName =
     (let drops0 = \<lparr>name = monsterName, always = [], main = [], uniques = [], tertiary = [],
                    mainTableRolls = 1, uniqueTableChance = None\<rparr>;
          drops6 = parseMechanics wikiContent monsterName (parseSections wikiContent drops0);
          drops7 = parseMainDropTable wikiContent drops6
      in if length (always drops7) = 0 \<and> length (main drops7) = 0 \<and> length (uniques drops7) = 0
         then (case getFallbackDropData monsterName of
                 Some fallbackData \<Rightarrow> fallbackData
               | None \<Rightarrow> drops7\<lparr>name := monsterName\<rparr>)
         else drops7)"

section \<open>Simulation\<close>

text \<open>
  \<^verbatim>\<open>Math.random()\<close> is modelled by the sequence of the values it will return: a draw
  takes the first value and leaves the rest. The loot object is a map from item names to
  totals. It is the loot of the program at every item name outside \<^const>\<open>objectMembers\<close>:
  for an item with one of these names, \<^verbatim>\<open>loot[item] || 0\<close> finds the inherited member,
  and the program stores a string under that name (or nothing, for \<^verbatim>\<open>__proto__\<close>),
  which changes no other key.
\<close>

type_synonym rng = "nat \<Rightarrow> real"

definition random :: "rng \<Rightarrow> real \<times> rng" where
  "random g = (g 0, \<lambda>n. g (Suc n))"

type_synonym loot_map = "string \<rightharpoonup> int"

record unique_drop =
  uitem :: string
  killNumber :: int
  urarity :: string

record simulation_result =
  monsterName :: string
  killCount :: nat
  loot :: loot_map
  uniqueDrops :: "unique_drop list"

type_synonym sim_state = "loot_map \<times> unique_drop list \<times> rng"

definition getRandomQuantity :: "quantity \<Rightarrow> rng \<Rightarrow> int \<times> rng" where
  "getRandomQuantity q g =
     (if qmin q = qmax q then (qmin q, g)
      else let (u, g') = random g
           in (\<lfloor>u * real_of_int (qmax q - qmin q + 1)\<rfloor> + qmin q, g'))"

text \<open>\<^verbatim>\<open>loot[item] || 0\<close> and \<^verbatim>\<open>addToLoot\<close>, for an item name outside
  \<^const>\<open>objectMembers\<close>.\<close>

definition lootOf :: "loot_map \<Rightarrow> string \<Rightarrow> int" where
  "lootOf lt i = (case lt i of None \<Rightarrow> 0 | Some v \<Rightarrow> v)"

definition addToLoot :: "loot_map \<Rightarrow> string \<Rightarrow> int \<Rightarrow> loot_map" where
  "addToLoot lt i q = lt(i \<mapsto> lootOf lt i + q)"

text \<open>\<^verbatim>\<open>xs[i]\<close> for a number \<open>i\<close>: \<^verbatim>\<open>undefined\<close> out of range.\<close>

definition nthOpt :: "'a list \<Rightarrow> int \<Rightarrow> 'a option" where
  "nthOpt xs i = (if 0 \<le> i \<and> i < int (length xs) then Some (xs ! nat i) else None)"

subsection \<open>Weighted selection\<close>

definition dropWeight :: "drop \<Rightarrow> real" where
  "dropWeight d =
     (if CHR ''/'' \<in> set (rarityText d)
      then real_of_int (parseIntOr (split (CHR ''/'') (rarityText d) ! 0) 1)
      else 1000 / rarity d)"

text \<open>The loop over \<open>dropsWithWeights\<close>, with the fallback after it.\<close>

fun pickDrop :: "(drop \<times> real) list \<Rightarrow> real \<Rightarrow> drop \<Rightarrow> drop" where
  "pickDrop [] r fallback = fallback"
| "pickDrop ((d, w) # rest) r fallback =
     (let r' = r - w in if r' \<le> 0 then d else pickDrop rest r' fallback)"

definition selectWeightedDrop :: "drop list \<Rightarrow> rng \<Rightarrow> drop option \<times> rng" where
  "selectWeightedDrop drops g =
     (if length drops = 0 then (None, g)
      else if length drops = 1 then (Some (drops ! 0), g)
      else
        let dropsWithWeights = map (\<lambda>d. (d, dropWeight d)) drops;
            totalWeight = foldl (\<lambda>sum it. sum + snd it) 0 dropsWithWeights
        in if totalWeight = 0 then (Some (drops ! 0), g)
           else let (u, g') = random g
                in (Some (pickDrop dropsWithWeights (u * totalWeight) (drops ! (length drops - 1))), g'))"

subsection \<open>Exact mode\<close>

text \<open>The four parts of the body of the loop over the kills.\<close>

definition alwaysDrops :: "drop_table \<Rightarrow> sim_state \<Rightarrow> sim_state" where
  "alwaysDrops dropData st =
     foldl (\<lambda>(lt, uds, g) dr.
              let (qty, g') = getRandomQuantity (quantity dr) g
              in (addToLoot lt (item dr) qty, uds, g'))
       st (always dropData)"

definition mainRoll :: "drop_table \<Rightarrow> sim_state \<Rightarrow> sim_state" where
  "mainRoll dropData st =
     (case st of (lt, uds, g) \<Rightarrow>
        (case selectWeightedDrop (main dropData) g of
           (None, g') \<Rightarrow> (lt, uds, g')
         | (Some mainDrop, g') \<Rightarrow>
             let (qty, g'') = getRandomQuantity (quantity mainDrop) g'
             in (addToLoot lt (item mainDrop) qty, uds, g'')))"

definition rollCountOf :: "drop_table \<Rightarrow> nat" where
  "rollCountOf dropData = (if mainTableRolls dropData = 0 then 1 else mainTableRolls dropData)"

definition mainRolls :: "drop_table \<Rightarrow> sim_state \<Rightarrow> sim_state" where
  "mainRolls dropData st = foldl (\<lambda>st' roll. mainRoll dropData st') st [0 ..< rollCountOf dropData]"

text \<open>\<^verbatim>\<open>dropData.uniqueTableChance && dropData.uniques.length > 0\<close>\<close>

definition sharedChance :: "drop_table \<Rightarrow> real option" where
  "sharedChance dropData =
     (case uniqueTableChance dropData of
        None \<Rightarrow> None
      | Some ch \<Rightarrow> if ch \<noteq> 0 \<and> length (uniques dropData) > 0 then Some ch else None)"

text \<open>One trial of the shared unique table, for the kill with the given number.\<close>

definition uniqueTableTrial :: "drop_table \<Rightarrow> real \<Rightarrow> int \<Rightarrow> sim_state \<Rightarrow> sim_state" where
  "uniqueTableTrial dropData ch kn st =
     (case st of (lt, uds, g) \<Rightarrow>
        let (u, g1) = random g in
        if u < ch then
          (let (v, g2) = random g1 in
           case nthOpt (uniques dropData) \<lfloor>v * real (length (uniques dropData))\<rfloor> of
             None \<Rightarrow> (lt, uds, g2)
           | Some uniqueDrop \<Rightarrow>
               let (qty, g3) = getRandomQuantity (quantity uniqueDrop) g2
               in (addToLoot lt (item uniqueDrop) qty,
                   uds @ [\<lparr>uitem = item uniqueDrop, killNumber = kn,
                            urarity = rarityText uniqueDrop\<rparr>], g3))
        else (lt, uds, g1))"

definition uniqueRolls :: "drop_table \<Rightarrow> int \<Rightarrow> sim_state \<Rightarrow> sim_state" where
  "uniqueRolls dropData kn st =
     (case sharedChance dropData of
        Some ch \<Rightarrow> uniqueTableTrial dropData ch kn st
      | None \<Rightarrow>
          foldl (\<lambda>(lt, uds, g) uniqueDrop.
                   let (u, g1) = random g in
                   if u < 1 / rarity uniqueDrop then
                     (let (qty, g2) = getRandomQuantity (quantity uniqueDrop) g1
                      in (addToLoot lt (item uniqueDrop) qty,
                          uds @ [\<lparr>uitem = item uniqueDrop, killNumber = kn,
                                   urarity = rarityText uniqueDrop\<rparr>], g2))
                   else (lt, uds, g1))
            st (uniques dropData))"

definition tertiaryRolls :: "drop_table \<Rightarrow> int \<Rightarrow> sim_state \<Rightarrow> sim_state" where
  "tertiaryRolls dropData kn st =
     foldl (\<lambda>(lt, uds, g) dr.
              let (u, g1) = random g in
              if u < 1 / rarity dr then
                (let (qty, g2) = getRandomQuantity (quantity dr) g1
                 in (addToLoot lt (item dr) qty,
                     (if rarity dr \<ge> 1000
                      then uds @ [\<lparr>uitem = item dr, killNumber = kn, urarity = rarityText dr\<rparr>]
                      else uds), g2))
              else (lt, uds, g1))
       st (tertiary dropData)"

definition simulateKill :: "drop_table \<Rightarrow> nat \<Rightarrow> sim_state \<Rightarrow> sim_state" where
  "simulateKill dropData i st =
     (let kn = int i + 1
      in tertiaryRolls dropData kn (uniqueRolls dropData kn (mainRolls dropData (alwaysDrops dropData st))))"

subsection \<open>Approximated mode\<close>

text \<open>\<^verbatim>\<open>Math.round(expectedDrops + (Math.random() - 0.5) * Math.sqrt(expectedDrops))\<close>,
  written three times in \<^verbatim>\<open>runOptimizedSimulation\<close>.\<close>

definition actualDropsOf :: "real \<Rightarrow> real \<Rightarrow> int" where
  "actualDropsOf expectedDrops u = round (expectedDrops + (u - 1 / 2) * sqrt expectedDrops)"

definition avgQuantity :: "drop \<Rightarrow> real" where
  "avgQuantity dr = (real_of_int (qmin (quantity dr)) + real_of_int (qmax (quantity dr))) / 2"

definition optAlways :: "drop_table \<Rightarrow> nat \<Rightarrow> loot_map \<Rightarrow> loot_map" where
  "optAlways dropData kc lt =
     foldl (\<lambda>lt' dr. addToLoot lt' (item dr) (round (avgQuantity dr * real kc))) lt (always dropData)"

definition optMain :: "drop_table \<Rightarrow> nat \<Rightarrow> sim_state \<Rightarrow> sim_state" where
  "optMain dropData kc st =
     (let totalMainRolls = kc * rollCountOf dropData in
      if length (main dropData) > 0 then
        (let dropsWithWeights = map (\<lambda>d. (d, dropWeight d)) (main dropData);
             totalWeight = foldl (\<lambda>sum it. sum + snd it) 0 dropsWithWeights
         in foldl (\<lambda>(lt, uds, g) (dr, weight).
                     let probability = weight / totalWeight;
                         expectedDrops = real totalMainRolls * probability;
                         (u, g') = random g;
                         actualDrops = actualDropsOf expectedDrops u
                     in if actualDrops > 0
                        then (addToLoot lt (item dr) (round (real_of_int actualDrops * avgQuantity dr)),
                              uds, g')
                        else (lt, uds, g'))
              st dropsWithWeights)
      else st)"

text \<open>The loop \<^verbatim>\<open>for (let i = 0; i < actualDrops; i++)\<close> of the unique drops with their
  own rates; it does not run when \<open>actualDrops\<close> is not positive.\<close>

definition optUniqueEvents :: "drop \<Rightarrow> nat \<Rightarrow> int \<Rightarrow> sim_state \<Rightarrow> sim_state" where
  "optUniqueEvents uniqueDrop kc actualDrops st =
     foldl (\<lambda>(lt, uds, g) i.
              let (qty, g1) = getRandomQuantity (quantity uniqueDrop) g;
                  (v, g2) = random g1
              in (addToLoot lt (item uniqueDrop) qty,
                  uds @ [\<lparr>uitem = item uniqueDrop, killNumber = \<lfloor>v * real kc\<rfloor> + 1,
                           urarity = rarityText uniqueDrop\<rparr>], g2))
       st [0 ..< nat actualDrops]"

definition optUniques :: "drop_table \<Rightarrow> nat \<Rightarrow> sim_state \<Rightarrow> sim_state" where
  "optUniques dropData kc st =
     (case sharedChance dropData of
        Some ch \<Rightarrow> foldl (\<lambda>st' i. uniqueTableTrial dropData ch (int i + 1) st') st [0 ..< kc]
      | None \<Rightarrow>
          foldl (\<lambda>(lt, uds, g) uniqueDrop.
                   let expectedDrops = real kc / rarity uniqueDrop;
                       (u, g1) = random g;
                       actualDrops = actualDropsOf expectedDrops u
                   in optUniqueEvents uniqueDrop kc actualDrops (lt, uds, g1))
            st (uniques dropData))"

text \<open>The notable events of a rare tertiary drop.\<close>

definition optTertiaryEvents :: "drop \<Rightarrow> nat \<Rightarrow> int \<Rightarrow> unique_drop list \<times> rng \<Rightarrow> unique_drop list \<times> rng" where
  "optTertiaryEvents dr kc actualDrops ug =
     foldl (\<lambda>(uds, g) i.
              let (v, g1) = random g
              in (uds @ [\<lparr>uitem = item dr, killNumber = \<lfloor>v * real kc\<rfloor> + 1,
                           urarity = rarityText dr\<rparr>], g1))
       ug [0 ..< nat actualDrops]"

definition optTertiary :: "drop_table \<Rightarrow> nat \<Rightarrow> sim_state \<Rightarrow> sim_state" where
  "optTertiary dropData kc st =
     foldl (\<lambda>(lt, uds, g) dr.
              let expectedDrops = real kc / rarity dr;
                  (u, g1) = random g;
                  actualDrops = actualDropsOf expectedDrops u
              in if actualDrops > 0 then
                   (let lt' = addToLoot lt (item dr) (round (real_of_int actualDrops * avgQuantity dr))
                    in if rarity dr \<ge> 1000
                       then (case optTertiaryEvents dr kc actualDrops (uds, g1) of
                               (uds', g2) \<Rightarrow> (lt', uds', g2))
                       else (lt', uds, g1))
                 else (lt, uds, g1))
       st (tertiary dropData)"

definition runOptimizedSimulation ::
  "drop_table \<Rightarrow> nat \<Rightarrow> loot_map \<Rightarrow> unique_drop list \<Rightarrow> rng \<Rightarrow> simulation_result" where
  "runOptimizedSimulation dropData kc lt uds g =
     (case optTertiary dropData kc
             (optUniques dropData kc (optMain dropData kc (optAlways dropData kc lt, uds, g))) of
        (lt', uds', g') \<Rightarrow>
          \<lparr>monsterName = name dropData, killCount = kc, loot = lt', uniqueDrops = uds'\<rparr>)"

definition runSimulation :: "drop_table \<Rightarrow> nat \<Rightarrow> rng \<Rightarrow> simulation_result" where
  "runSimulation dropData kc g =
     (if kc > 1000 then runOptimizedSimulation dropData kc Map.empty [] g
      else
        (case foldl (\<lambda>st i. simulateKill dropData i st) (Map.empty, [], g) [0 ..< kc] of
           (lt, uds, g') \<Rightarrow>
             \<lparr>monsterName = name dropData, killCount = kc, loot = lt, uniqueDrops = uds\<rparr>))"


section \<open>The cache and simulateKills\<close>

text \<open>
  \<open>dropCache\<close> is a JavaScript \<^verbatim>\<open>Map\<close>: a list of entries in insertion order with
  distinct keys. Every reading of \<^verbatim>\<open>Date.now()\<close> is an argument of the model.
\<close>

record cache_entry =
  data :: drop_table
  timestamp :: int

type_synonym cache = "(string \<times> cache_entry) list"

definition CACHE_DURATION :: int where
  "CACHE_DURATION = 60 * 60 * 1000"

definition MAX_CACHE_SIZE :: nat where
  "MAX_CACHE_SIZE = 100"

definition cacheGet :: "cache \<Rightarrow> string \<Rightarrow> cache_entry option" where
  "cacheGet c k = map_of c k"

definition cacheSet :: "cache \<Rightarrow> string \<Rightarrow> cache_entry \<Rightarrow> cache" where
  "cacheSet c k v =
     (if map_of c k = None then c @ [(k, v)]
      else map (\<lambda>(k', v'). if k' = k then (k', v) else (k', v')) c)"

definition cacheDelete :: "cache \<Rightarrow> string \<Rightarrow> cache" where
  "cacheDelete c k = filter (\<lambda>(k', v'). k' \<noteq> k) c"

definition cleanupExpiredCache :: "cache \<Rightarrow> int \<Rightarrow> cache" where
  "cleanupExpiredCache c now =
     (let keysToDelete = map fst (filter (\<lambda>(k, v). now - timestamp v \<ge> CACHE_DURATION) c)
      in foldl cacheDelete c keysToDelete)"

text \<open>The search for the oldest entry; \<open>oldestKey\<close> starts as \<^verbatim>\<open>null\<close> and
  \<open>oldestTime\<close> as the current time.\<close>

definition findOldest :: "cache \<Rightarrow> int \<Rightarrow> string option \<times> int" where
  "findOldest c now =
     foldl (\<lambda>(oldestKey, oldestTime) (k, v).
              if timestamp v < oldestTime then (Some k, timestamp v) else (oldestKey, oldestTime))
       (None, now) c"

text \<open>\<^verbatim>\<open>if (oldestKey)\<close>: \<^verbatim>\<open>null\<close> and the empty string are falsy.\<close>

definition evictLRUEntry :: "cache \<Rightarrow> int \<Rightarrow> cache" where
  "evictLRUEntry c now =
     (case fst (findOldest c now) of
        None \<Rightarrow> c
      | Some oldestKey \<Rightarrow> if oldestKey \<noteq> [] then cacheDelete c oldestKey else c)"

text \<open>
  The insertion that \<^verbatim>\<open>simulateKills\<close> writes twice, for parsed and for fallback data:
  \<^verbatim>\<open>if (dropCache.size >= MAX_CACHE_SIZE) evictLRUEntry(); dropCache.set(cacheKey, {data, timestamp: Date.now()})\<close>.
  \<open>tEvict\<close> and \<open>tSet\<close> are the two readings of the clock.
\<close>

definition cachePut :: "cache \<Rightarrow> string \<Rightarrow> drop_table \<Rightarrow> int \<Rightarrow> int \<Rightarrow> cache" where
  "cachePut c cacheKey d tEvict tSet =
     cacheSet (if length c \<ge> MAX_CACHE_SIZE then evictLRUEntry c tEvict else c)
       cacheKey \<lparr>data = d, timestamp = tSet\<rparr>"

subsection \<open>The two requests to the wiki\<close>

text \<open>
  What \<^verbatim>\<open>await fetch(url)\<close> followed by \<^verbatim>\<open>await response.json()\<close> gives: the
  promise rejects, the response is not \<^verbatim>\<open>ok\<close>, or there is a body.
\<close>

datatype 'a fetched = Rejected | NotOk | Body 'a

text \<open>
  The body of the search request is reduced to the titles under \<^verbatim>\<open>query.search\<close>
  (empty when a level is missing). The body of the content request is reduced to the cases
  that the code tells apart.
\<close>

datatype pages =
    MissingPages
  | PageNotFound
  | BrokenPage
  | Content string

text \<open>
  \<^const>\<open>MissingPages\<close>: no \<^verbatim>\<open>query\<close> or no \<^verbatim>\<open>query.pages\<close>.
  \<^const>\<open>PageNotFound\<close>: the first page id is \<^verbatim>\<open>-1\<close> or the page has no revisions.
  \<^const>\<open>BrokenPage\<close>: reading the first page or its first revision raises a type error.
  \<^const>\<open>Content\<close>: the text of the first revision, empty when it is missing.
\<close>

record environment =
  searchResponse :: "string list fetched"
  contentResponse :: "pages fetched"
  nowCheck :: int
  nowEvict :: int
  nowSet :: int

datatype outcome = Error string | Result simulation_result

definition quoted :: "string \<Rightarrow> string" where
  "quoted s = [CHR 0x22] @ s @ [CHR 0x22]"

text \<open>\<^verbatim>\<open>!dropData || (all four sequences are empty)\<close>\<close>

definition noDropData :: "drop_table \<Rightarrow> bool" where
  "noDropData d =
     (length (always d) = 0 \<and> length (main d) = 0 \<and> length (uniques d) = 0 \<and>
      length (tertiary d) = 0)"

text \<open>The \<^verbatim>\<open>try\<close> block: \<^const>\<open>Inl\<close> when it throws, else what it returns and the
  cache it leaves.\<close>

definition tryFetch ::
  "string \<Rightarrow> nat \<Rightarrow> environment \<Rightarrow> rng \<Rightarrow> cache \<Rightarrow> unit + (outcome \<times> cache)" where
  "tryFetch monsterName' kc env g dropCache =
     (let cacheKey = toLowerCase monsterName' in
      case searchResponse env of
        Rejected \<Rightarrow> Inl ()
      | NotOk \<Rightarrow> Inl ()
      | Body titles \<Rightarrow>
          (case titles of
             [] \<Rightarrow> Inr (Error (''Could not find monster: '' @ quoted monsterName'), dropCache)
           | pageTitle # others \<Rightarrow>
               (case contentResponse env of
                  Rejected \<Rightarrow> Inl ()
                | NotOk \<Rightarrow> Inl ()
                | Body MissingPages \<Rightarrow> Inl ()
                | Body BrokenPage \<Rightarrow> Inl ()
                | Body PageNotFound \<Rightarrow>
                    Inr (Error (''Wiki page not found for: '' @ quoted monsterName'), dropCache)
                | Body (Content content) \<Rightarrow>
                    if content = [] then
                      Inr (Error (''No content found for: '' @ quoted monsterName'), dropCache)
                    else
                      (let dropData = parseDropTables content pageTitle in
                       if noDropData dropData then
                         (case getFallbackDropData monsterName' of
                            Some fallbackData \<Rightarrow>
                              Inr (Result (runSimulation fallbackData kc g),
                                   cachePut dropCache cacheKey fallbackData (nowEvict env) (nowSet env))
                          | None \<Rightarrow>
                              Inr (Error (''No drop table data found for: '' @ quoted monsterName'),
                                   dropCache))
                       else
                         Inr (Result (runSimulation dropData kc g),
                              cachePut dropCache cacheKey dropData (nowEvict env) (nowSet env))))))"

text \<open>The entry that answers the request from the cache, if there is one.\<close>

definition freshEntry :: "cache \<Rightarrow> string \<Rightarrow> int \<Rightarrow> cache_entry option" where
  "freshEntry dropCache cacheKey now =
     (case cacheGet dropCache cacheKey of
        None \<Rightarrow> None
      | Some cached \<Rightarrow> if now - timestamp cached < CACHE_DURATION then Some cached else None)"

definition simulateKills ::
  "string \<Rightarrow> nat \<Rightarrow> environment \<Rightarrow> rng \<Rightarrow> cache \<Rightarrow> outcome \<times> cache" where
  "simulateKills monsterName' kc env g dropCache =
     (case freshEntry dropCache (toLowerCase monsterName') (nowCheck env) of
        Some cached \<Rightarrow> (Result (runSimulation (data cached) kc g), dropCache)
      | None \<Rightarrow>
          (case tryFetch monsterName' kc env g dropCache of
             Inr r \<Rightarrow> r
           | Inl thrown \<Rightarrow>
               (case getFallbackDropData monsterName' of
                  Some fallbackData \<Rightarrow> (Result (runSimulation fallbackData kc g), dropCache)
                | None \<Rightarrow>
                    (Error (''Failed to fetch drop data for '' @ quoted monsterName' @
                            ''. Please try again.''), dropCache))))"


section \<open>Notions used in the statements\<close>

text \<open>A sequence of draws as \<^verbatim>\<open>Math.random()\<close> gives them: every value is in \<open>[0, 1)\<close>.\<close>

definition goodRng :: "rng \<Rightarrow> bool" where
  "goodRng g = (\<forall>n. 0 \<le> g n \<and> g n < 1)"

text \<open>A quantity range that is not negative and not empty.\<close>

definition validQuantity :: "quantity \<Rightarrow> bool" where
  "validQuantity q = (0 \<le> qmin q \<and> qmin q \<le> qmax q)"


text \<open>Text of ASCII characters, the domain on which the strings are modelled.\<close>

definition asciiText :: "string \<Rightarrow> bool" where
  "asciiText s = list_all (\<lambda>c. (of_char c :: nat) < 128) s"





text \<open>A sequence of insertions into the cache, each with its key, its table and its two
  readings of the clock.\<close>

definition putAll :: "cache \<Rightarrow> (string \<times> drop_table \<times> int \<times> int) list \<Rightarrow> cache" where
  "putAll c puts = foldl (\<lambda>c' (k, d, tEvict, tSet). cachePut c' k d tEvict tSet) c puts"

text \<open>One hundred insertions with distinct keys, at the readings 2000, 2001, ... of the clock,
  and the full cache that they leave.\<close>

definition hundredPuts :: "(string \<times> drop_table \<times> int \<times> int) list" where
  "hundredPuts =
     map (\<lambda>n. (replicate (Suc n) (CHR ''a''), kingBlackDragonDrops, 2000 + int n, 2000 + int n))
       [0 ..< 100]"

definition fullCache :: cache where
  "fullCache =
     map (\<lambda>n. (replicate (Suc n) (CHR ''a''),
               \<lparr>data = kingBlackDragonDrops, timestamp = 2000 + int n\<rparr>))
       [0 ..< 100]"

text \<open>The decimal numeral of a natural number, as it is written in a quantity or a rarity.\<close>

definition digitChar :: "nat \<Rightarrow> char" where
  "digitChar d = ''0123456789'' ! d"

function dec :: "nat \<Rightarrow> string" where
  "dec n = (if n < 10 then [digitChar n] else dec (n div 10) @ [digitChar (n mod 10)])"
  by pat_completeness auto
termination
  by (relation "measure id") auto

declare dec.simps [simp del]

text \<open>Text after a numeral that ends it: nothing, or a character that is neither a digit nor
  the \<open>x\<close> of a hexadecimal prefix.\<close>

definition stopsNumber :: "string \<Rightarrow> bool" where
  "stopsNumber rest = (case rest of [] \<Rightarrow> True | c # cs \<Rightarrow> digitVal c = None \<and> c \<noteq> CHR ''x'' \<and> c \<noteq> CHR ''X'')"

text \<open>No item of the main sequence occurs in another sequence.\<close>

definition mainDisjoint :: "drop_table \<Rightarrow> bool" where
  "mainDisjoint d \<longleftrightarrow>
     item ` set (main d) \<inter> item ` (set (always d) \<union> set (uniques d) \<union> set (tertiary d)) = {}"

text \<open>Markup in which one item is listed twice under the always drops and once more under the
  tertiary drops.\<close>

definition duplicatedMarkup :: string where
  "duplicatedMarkup =
     ''===100%==={{DropsLine|name=Bones|quantity=1|rarity=Always}}'' @
     ''{{DropsLine|name=Bones|quantity=2|rarity=Always}}'' @
     ''===Tertiary==={{DropsLine|name=Bones|quantity=1|rarity=1/5}}{{DropsTableBottom}}''"

text \<open>The acquisition throws: a \<^verbatim>\<open>fetch\<close> rejects, a response is not \<^verbatim>\<open>ok\<close>, or the
  body of the content request lacks its pages or cannot be read.\<close>

definition fetchThrows :: "environment \<Rightarrow> bool" where
  "fetchThrows env =
     (case searchResponse env of
        Rejected \<Rightarrow> True
      | NotOk \<Rightarrow> True
      | Body titles \<Rightarrow>
          titles \<noteq> [] \<and>
          (case contentResponse env of
             Rejected \<Rightarrow> True
           | NotOk \<Rightarrow> True
           | Body MissingPages \<Rightarrow> True
           | Body BrokenPage \<Rightarrow> True
           | Body PageNotFound \<Rightarrow> False
           | Body (Content content) \<Rightarrow> False))"

section \<open>Auxiliary facts\<close>

lemma foldl_invariant:
  "P s \<Longrightarrow> (\<And>s x. x \<in> set xs \<Longrightarrow> P s \<Longrightarrow> P (f s x)) \<Longrightarrow> P (foldl f s xs)"
  by (induction xs arbitrary: s) auto

lemma goodRng_random: "goodRng g \<Longrightarrow> goodRng (snd (random g)) \<and> 0 \<le> fst (random g) \<and> fst (random g) < 1"
  by (simp add: goodRng_def random_def)

lemma lootOf_addToLoot: "lootOf (addToLoot lt i q) j = lootOf lt j + (if i = j then q else 0)"
  by (simp add: lootOf_def addToLoot_def)

lemma getRandomQuantity_good:
  assumes "goodRng g" "0 \<le> qmin q" "qmin q \<le> qmax q"
  shows "0 \<le> fst (getRandomQuantity q g) \<and> goodRng (snd (getRandomQuantity q g))"
proof (cases "qmin q = qmax q")
  case True
  then show ?thesis using assms by (simp add: getRandomQuantity_def)
next
  case False
  have "0 \<le> fst (random g) * real_of_int (qmax q - qmin q + 1)"
    using goodRng_random [OF assms(1)] assms(3) by simp
  then have "0 \<le> \<lfloor>fst (random g) * real_of_int (qmax q - qmin q + 1)\<rfloor>" by simp
  then show ?thesis
    using False assms(2) goodRng_random [OF assms(1)]
    by (simp add: getRandomQuantity_def case_prod_unfold Let_def)
qed













lemma sharedChance_always [simp]: "sharedChance (d\<lparr>always := z\<rparr>) = sharedChance d"
  by (simp add: sharedChance_def cong: option.case_cong)

lemma uniqueTableTrial_always [simp]: "uniqueTableTrial (d\<lparr>always := z\<rparr>) = uniqueTableTrial d"
  by (simp add: uniqueTableTrial_def fun_eq_iff cong: option.case_cong prod.case_cong if_cong)






lemma pickDrop_member: "pickDrop xs r fb \<in> insert fb (fst ` set xs)"
  by (induction xs r fb rule: pickDrop.induct) (auto simp: Let_def)




















lemma optMain_always [simp]: "optMain (d\<lparr>always := z\<rparr>) = optMain d"
  by (simp add: optMain_def rollCountOf_def fun_eq_iff)

lemma optUniques_always [simp]: "optUniques (d\<lparr>always := z\<rparr>) = optUniques d"
  by (simp add: optUniques_def fun_eq_iff cong: option.case_cong)

lemma optTertiary_always [simp]: "optTertiary (d\<lparr>always := z\<rparr>) = optTertiary d"
  by (simp add: optTertiary_def fun_eq_iff)








subsection \<open>Numerals, trimming and splitting\<close>

lemma upt10: "[0 ..< 10] = [0, 1, 2, 3, 4, 5, 6, 7, 8, 9::nat]"
  by (simp add: upt_rec)

lemma lt10_cases: "(d::nat) < 10 \<Longrightarrow> d \<in> {0, 1, 2, 3, 4, 5, 6, 7, 8, 9}"
  by auto

lemma digitVal_digitChar: "d < 10 \<Longrightarrow> digitVal (digitChar d) = Some d"
  by (drule lt10_cases) (auto simp: digitVal_def digitChar_def upt10)

lemma digitVal_Some_iff: "digitVal c \<noteq> None \<longleftrightarrow> c \<in> set ''0123456789''"
  by (auto simp: digitVal_def upt10 split: if_splits)

lemma digitChar_digit: "d < 10 \<Longrightarrow> digitChar d \<in> set ''0123456789''"
  by (drule lt10_cases) (auto simp: digitChar_def)

lemma digitChar_zero: "d < 10 \<Longrightarrow> digitChar d = CHR ''0'' \<longleftrightarrow> d = 0"
  by (drule lt10_cases) (auto simp: digitChar_def)

lemma dec_digits: "set (dec n) \<subseteq> set ''0123456789''"
proof (induction n rule: dec.induct)
  case (1 n)
  show ?case
  proof (cases "n < 10")
    case True
    then show ?thesis using digitChar_digit [of n] by (subst dec.simps) simp
  next
    case False
    then show ?thesis using 1 digitChar_digit [of "n mod 10"] by (subst dec.simps) simp
  qed
qed

lemma dec_nonempty: "dec n \<noteq> []"
  by (subst dec.simps) simp

lemma hd_dec_nonzero: "0 < n \<Longrightarrow> hd (dec n) \<noteq> CHR ''0''"
proof (induction n rule: dec.induct)
  case (1 n)
  show ?case
  proof (cases "n < 10")
    case True
    then show ?thesis using 1(2) digitChar_zero [of n] by (subst dec.simps) simp
  next
    case False
    then have "0 < n div 10" by simp
    then have "hd (dec (n div 10)) \<noteq> CHR ''0''" using 1(1) False by simp
    then show ?thesis using False dec_nonempty [of "n div 10"] by (subst dec.simps) simp
  qed
qed

lemma digitsPrefix_dec:
  "digitsPrefix digitVal 10 acc (dec n @ rest) =
   digitsPrefix digitVal 10 (Some ((case acc of None \<Rightarrow> 0 | Some a \<Rightarrow> a) * 10 ^ length (dec n) + n)) rest"
proof (induction n arbitrary: acc rest rule: dec.induct)
  case (1 n)
  show ?case
  proof (cases "n < 10")
    case True
    then show ?thesis by (subst (1 2) dec.simps) (simp add: digitVal_digitChar)
  next
    case False
    have d: "dec n = dec (n div 10) @ [digitChar (n mod 10)]" using False by (subst dec.simps) simp
    show ?thesis
      unfolding d using 1 [OF False, of acc "digitChar (n mod 10) # rest"]
      by (simp add: digitVal_digitChar algebra_simps)
  qed
qed

lemma digitsPrefix_stop: "stopsNumber rest \<Longrightarrow> digitsPrefix digitVal 10 (Some v) rest = Some v"
  by (cases rest) (auto simp: stopsNumber_def)

lemma parseUnsigned_dec:
  assumes "0 < n" "stopsNumber rest"
  shows "parseUnsigned (dec n @ rest) = Some n"
proof -
  have dig: "digitsPrefix digitVal 10 None (dec n @ rest) = Some n"
    by (simp add: digitsPrefix_dec digitsPrefix_stop [OF assms(2)])
  obtain c cs where d: "dec n = c # cs" using dec_nonempty [of n] by (cases "dec n") auto
  have c0: "c \<noteq> CHR ''0''" using hd_dec_nonzero [OF assms(1)] d by simp
  show ?thesis
    using dig c0 unfolding parseUnsigned_def d
    by (cases "cs @ rest") auto
qed

lemma digit_facts:
  "c \<in> set ''0123456789'' \<Longrightarrow>
   \<not> isSpace c \<and> c \<noteq> CHR ''-'' \<and> c \<noteq> CHR ''+'' \<and> c \<noteq> CHR ''('' \<and> c \<noteq> CHR ''/''"
  by (auto simp: isSpace_def)

lemma parseInt_dec:
  assumes "0 < n" "stopsNumber rest"
  shows "parseInt (dec n @ rest) = Some (int n)"
proof -
  obtain c cs where d: "dec n = c # cs" using dec_nonempty [of n] by (cases "dec n") auto
  have "c \<in> set ''0123456789''" using dec_digits [of n] d by auto
  from digit_facts [OF this] have f: "\<not> isSpace c" "c \<noteq> CHR ''-''" "c \<noteq> CHR ''+''" by simp_all
  have "parseInt (dec n @ rest) = map_option int (parseUnsigned (dec n @ rest))"
    using f by (simp add: parseInt_def d)
  then show ?thesis by (simp add: parseUnsigned_dec [OF assms])
qed

lemma trim_id: "s \<noteq> [] \<Longrightarrow> \<not> isSpace (hd s) \<Longrightarrow> \<not> isSpace (last s) \<Longrightarrow> trim s = s"
proof -
  assume ne: "s \<noteq> []" and h: "\<not> isSpace (hd s)" and l: "\<not> isSpace (last s)"
  have 1: "dropWhile isSpace s = s" using ne h by (cases s) auto
  have "rev s \<noteq> []" "\<not> isSpace (hd (rev s))" using ne l by (simp_all add: hd_rev)
  then have 2: "dropWhile isSpace (rev s) = rev s" by (cases "rev s") auto
  show ?thesis by (simp add: trim_def 1 2)
qed

lemma split_no_sep: "sep \<notin> set a \<Longrightarrow> split sep a = [a]"
  by (induction a) auto

lemma split_at_sep: "sep \<notin> set a \<Longrightarrow> split sep (a @ sep # b) = a # split sep b"
  by (induction a) auto

lemma split_nonempty: "split sep s \<noteq> []"
  by (induction s) (auto split: list.splits)

lemma split_parts_no_sep: "p \<in> set (split sep s) \<Longrightarrow> sep \<notin> set p"
proof (induction s arbitrary: p)
  case Nil
  then show ?case by simp
next
  case (Cons c s)
  show ?case
  proof (cases "c = sep")
    case True
    then show ?thesis using Cons by auto
  next
    case False
    obtain q qs where q: "split sep s = q # qs" using split_nonempty [of sep s] by (cases "split sep s") auto
    then have "sep \<notin> set q" "\<And>x. x \<in> set qs \<Longrightarrow> sep \<notin> set x" using Cons.IH by auto
    then show ?thesis using Cons.prems False q by auto
  qed
qed

lemma split_length: "sep \<in> set s \<Longrightarrow> 2 \<le> length (split sep s)"
proof (induction s)
  case Nil
  then show ?case by simp
next
  case (Cons c s)
  show ?case
  proof (cases "c = sep")
    case True
    then show ?thesis using split_nonempty [of sep s] by (cases "split sep s") auto
  next
    case False
    then show ?thesis using Cons by (auto split: list.splits)
  qed
qed

lemma rxm_note_fail:
  "CHR ''('' \<notin> set s \<Longrightarrow> rxm False notePattern s [] [] = None"
proof -
  have "CHR ''('' \<notin> set s \<Longrightarrow>
        rxm False (Rep (Set [Space]) 0 True # Ch (Set [Lit (CHR ''('')]) # r) s st caps = None"
    for r st caps
    by (induction s) auto
  then show "CHR ''('' \<notin> set s \<Longrightarrow> rxm False notePattern s [] [] = None"
    by (simp add: notePattern_def)
qed

lemma removeMatches_no_paren: "CHR ''('' \<notin> set s \<Longrightarrow> removeMatches notePattern s = s"
proof (induction s)
  case Nil
  then show ?case by (subst removeMatches.simps) (simp add: rxm_note_fail)
next
  case (Cons c s)
  then show ?case by (subst removeMatches.simps) (simp add: rxm_note_fail)
qed

lemma rxm_note_body:
  "CHR '')'' \<notin> set a \<Longrightarrow>
   rxm False [Rep (NotSet [Lit (CHR '')'')]) 0 True, Ch (Set [Lit (CHR '')'')])] (a @ '')'') st caps =
     Some ([], caps)"
  by (induction a) auto

lemma rxm_note_match:
  assumes "a \<noteq> []" "CHR '')'' \<notin> set a"
  shows "rxm False notePattern ('' ('' @ a @ '')'') [] [] = Some ([], [])"
proof -
  obtain x xs where a: "a = x # xs" using assms(1) by (cases a) auto
  have x: "x \<noteq> CHR '')''" and xs: "CHR '')'' \<notin> set xs" using assms(2) a by auto
  show ?thesis
    using rxm_note_body [OF xs, of "[]" "[]"] x
    by (simp add: notePattern_def a isSpace_def)
qed

lemma removeMatches_note:
  assumes "\<forall>c \<in> set s. \<not> isSpace c \<and> c \<noteq> CHR ''(''" "a \<noteq> []" "CHR '')'' \<notin> set a"
  shows "removeMatches notePattern (s @ '' ('' @ a @ '')'') = s"
  using assms(1)
proof (induction s)
  case Nil
  have e: "removeMatches notePattern [] = []" by (subst removeMatches.simps) (simp add: rxm_note_fail)
  show ?case
    using rxm_note_match [OF assms(2,3)] e
    by (subst removeMatches.simps) simp
next
  case (Cons c s)
  then have c: "c \<noteq> CHR ''(''" "\<not> isSpace c"
    and IH: "removeMatches notePattern (s @ '' ('' @ a @ '')'') = s" by auto
  have "rxm False notePattern (c # s @ '' ('' @ a @ '')'') [] [] = None"
    using c by (simp add: notePattern_def)
  then show ?case using IH by (subst removeMatches.simps) simp
qed

lemma stopsNumber_simps [simp]:
  "stopsNumber []" "stopsNumber (CHR ''-'' # r)" "stopsNumber (CHR ''/'' # r)"
  by (simp_all add: stopsNumber_def digitVal_def upt10)

lemma parseIntOr_dec: "0 < n \<Longrightarrow> parseIntOr (dec n) dflt = int n"
  using parseInt_dec [of n "[]"] by (simp add: parseIntOr_def)

lemma dec_chars:
  "c \<in> set (dec n) \<Longrightarrow>
   \<not> isSpace c \<and> c \<noteq> CHR ''-'' \<and> c \<noteq> CHR ''+'' \<and> c \<noteq> CHR ''('' \<and> c \<noteq> CHR ''/''"
  using dec_digits [of n] digit_facts [of c] by blast

lemma dec_hd_last: "\<not> isSpace (hd (dec n))" "\<not> isSpace (last (dec n))"
  using dec_chars [of "hd (dec n)" n] dec_chars [of "last (dec n)" n] dec_nonempty [of n]
  by auto

lemma pair_clean:
  assumes "sep = CHR ''-'' \<or> sep = CHR ''/''"
  shows "trim (dec a @ sep # dec b) = dec a @ sep # dec b"
    and "split sep (dec a @ sep # dec b) = [dec a, dec b]"
    and "\<forall>c \<in> set (dec a @ sep # dec b). \<not> isSpace c \<and> c \<noteq> CHR ''(''"
proof -
  have na: "sep \<notin> set (dec a)" and nb: "sep \<notin> set (dec b)"
    using assms dec_chars [of sep a] dec_chars [of sep b] by auto
  show "trim (dec a @ sep # dec b) = dec a @ sep # dec b"
    using dec_hd_last [of a] dec_hd_last [of b] dec_nonempty [of a] dec_nonempty [of b]
    by (intro trim_id) simp_all
  show "split sep (dec a @ sep # dec b) = [dec a, dec b]"
    by (simp add: split_at_sep [OF na] split_no_sep [OF nb])
  show "\<forall>c \<in> set (dec a @ sep # dec b). \<not> isSpace c \<and> c \<noteq> CHR ''(''"
    using assms dec_chars [of _ a] dec_chars [of _ b] by (auto simp: isSpace_def)
qed

lemma parseInt_nonneg: "CHR ''-'' \<notin> set p \<Longrightarrow> parseInt p = Some v \<Longrightarrow> 0 \<le> v"
proof -
  assume nd: "CHR ''-'' \<notin> set p" and v: "parseInt p = Some v"
  have "set (dropWhile isSpace p) \<subseteq> set p" by (rule set_dropWhileD [THEN subsetI])
  then have "CHR ''-'' \<notin> set (dropWhile isSpace p)" using nd by blast
  then show ?thesis using v
    by (cases "dropWhile isSpace p") (auto simp: parseInt_def split: if_splits)
qed

lemma parseIntOr_pos: "CHR ''-'' \<notin> set p \<Longrightarrow> 1 \<le> d \<Longrightarrow> 1 \<le> parseIntOr p d"
  using parseInt_nonneg [of p] by (auto simp: parseIntOr_def split: option.splits)

section \<open>The size of the cache\<close>

lemma findOldest_none:
  "\<forall>e \<in> set c. now \<le> timestamp (snd e) \<Longrightarrow> findOldest c now = (None, now)"
proof -
  have "\<forall>e \<in> set c. now \<le> timestamp (snd e) \<Longrightarrow>
        foldl (\<lambda>(oldestKey, oldestTime) (k, v).
              if timestamp v < oldestTime then (Some k, timestamp v) else (oldestKey, oldestTime))
          (None, now) c = (None, now)"
    by (induction c) (auto simp: case_prod_unfold)
  then show "\<forall>e \<in> set c. now \<le> timestamp (snd e) \<Longrightarrow> findOldest c now = (None, now)"
    by (simp add: findOldest_def)
qed

lemma findOldest_some:
  assumes "c \<noteq> []" "\<forall>e \<in> set c. timestamp (snd e) < now"
  shows "\<exists>k t. findOldest c now = (Some k, t) \<and> k \<in> fst ` set c"
proof -
  let ?f = "\<lambda>(oldestKey, oldestTime) (k, v).
              if timestamp v < oldestTime then (Some k, timestamp v) else (oldestKey, oldestTime)"
  have step: "\<exists>k t. foldl ?f (Some k0, t0) zs = (Some k, t) \<and> k \<in> insert k0 (fst ` set zs)"
    for k0 t0 and zs :: cache
    by (induction zs arbitrary: k0 t0) (auto simp: case_prod_unfold, blast+)
  obtain e es where c: "c = e # es" using assms(1) by (cases c) auto
  have "timestamp (snd e) < now" using assms(2) c by simp
  then have "findOldest c now = foldl ?f (Some (fst e), timestamp (snd e)) es"
    by (simp add: findOldest_def c case_prod_unfold)
  then show ?thesis using step [of "fst e" "timestamp (snd e)" es] c by auto
qed

lemma cacheSet_length: "length (cacheSet c k v) \<le> Suc (length c)"
  by (simp add: cacheSet_def)

lemma cacheDelete_length: "k \<in> fst ` set c \<Longrightarrow> length (cacheDelete c k) < length c"
proof -
  assume "k \<in> fst ` set c"
  then obtain e where e: "e \<in> set c" "fst e = k" by auto
  then have "\<not> (case e of (k', v') \<Rightarrow> k' \<noteq> k)" by (simp add: case_prod_unfold)
  with e(1) show ?thesis unfolding cacheDelete_def by (rule length_filter_less)
qed

text \<open>An insertion keeps the cache within its bound when every entry was stamped before the
  reading of the clock at the eviction and no key is the empty string.\<close>

lemma cachePut_bound:
  assumes "length c \<le> MAX_CACHE_SIZE"
    and "\<forall>e \<in> set c. timestamp (snd e) < tEvict \<and> fst e \<noteq> []"
  shows "length (cachePut c k d tEvict tSet) \<le> MAX_CACHE_SIZE"
proof (cases "length c \<ge> MAX_CACHE_SIZE")
  case False
  then show ?thesis
    using cacheSet_length [of c k "\<lparr>data = d, timestamp = tSet\<rparr>"] by (simp add: cachePut_def)
next
  case True
  then have ne: "c \<noteq> []" by (auto simp: MAX_CACHE_SIZE_def)
  obtain k0 t0 where f: "findOldest c tEvict = (Some k0, t0)" and mem: "k0 \<in> fst ` set c"
    using findOldest_some [OF ne, of tEvict] assms(2) by auto
  have "k0 \<noteq> []" using mem assms(2) by auto
  then have "evictLRUEntry c tEvict = cacheDelete c k0" by (simp add: evictLRUEntry_def f)
  then have "length (evictLRUEntry c tEvict) < length c" using cacheDelete_length [OF mem] by simp
  then show ?thesis
    using True assms(1) cacheSet_length [of "evictLRUEntry c tEvict" k "\<lparr>data = d, timestamp = tSet\<rparr>"]
    by (simp add: cachePut_def)
qed

lemma putAll_prefix:
  "n \<le> 100 \<Longrightarrow>
   putAll [] (map (\<lambda>n. (replicate (Suc n) (CHR ''a''), kingBlackDragonDrops, 2000 + int n, 2000 + int n))
                [0 ..< n]) =
   map (\<lambda>n. (replicate (Suc n) (CHR ''a''), \<lparr>data = kingBlackDragonDrops, timestamp = 2000 + int n\<rparr>))
     [0 ..< n]"
proof (induction n)
  case 0
  show ?case by (simp add: putAll_def)
next
  case (Suc n)
  let ?c = "map (\<lambda>n. (replicate (Suc n) (CHR ''a''),
                       \<lparr>data = kingBlackDragonDrops, timestamp = 2000 + int n\<rparr>)) [0 ..< n]"
  have IH: "putAll [] (map (\<lambda>n. (replicate (Suc n) (CHR ''a''), kingBlackDragonDrops,
                                   2000 + int n, 2000 + int n)) [0 ..< n]) = ?c"
    using Suc by simp
  have len: "length ?c < MAX_CACHE_SIZE" using Suc.prems by (simp add: MAX_CACHE_SIZE_def)
  have "replicate (Suc n) (CHR ''a'') \<noteq> replicate (Suc m) (CHR ''a'')" if "m < n" for m
    using that by (metis length_replicate nat.inject nat_neq_iff)
  then have nokey: "map_of ?c (replicate (Suc n) (CHR ''a'')) = None"
    by (auto simp: map_of_eq_None_iff image_iff)
  have "cachePut ?c (replicate (Suc n) (CHR ''a'')) kingBlackDragonDrops (2000 + int n) (2000 + int n) =
        ?c @ [(replicate (Suc n) (CHR ''a''),
               \<lparr>data = kingBlackDragonDrops, timestamp = 2000 + int n\<rparr>)]"
    using len nokey by (simp add: cachePut_def cacheSet_def)
  then show ?case using IH by (simp add: putAll_def)
qed

text \<open>
  Claim C1 says that after any sequence of insertions the cache never holds more than 100
  entries, the entry with the smallest timestamp being evicted when the cache is full. The
  search for the oldest entry starts from the current time and only takes an entry stamped
  strictly before it: after one hundred insertions at the readings 2000, 2001, ... of the
  clock, an insertion of a new key at the reading 1000 (the clock was set back) evicts
  nothing and leaves 101 entries.
\<close>

theorem cachePut_full_cache_grows:
  "putAll [] hundredPuts = fullCache \<and> length fullCache = 100 \<and>
   length (putAll [] (hundredPuts @ [(''cerberus'', getCerberusHardcodedDrops, 1000, 1000)])) = 101"
proof -
  have reach: "putAll [] hundredPuts = fullCache"
    using putAll_prefix [of 100] by (simp add: hundredPuts_def fullCache_def)
  have len: "length fullCache = 100" by (simp add: fullCache_def)
  have "findOldest fullCache 1000 = (None, 1000)"
    by (rule findOldest_none) (auto simp: fullCache_def)
  then have ev: "evictLRUEntry fullCache 1000 = fullCache" by (simp add: evictLRUEntry_def)
  have nokey: "map_of fullCache ''cerberus'' = None"
    by (auto simp: fullCache_def map_of_eq_None_iff image_iff)
  have "length (cachePut fullCache ''cerberus'' getCerberusHardcodedDrops 1000 1000) = 101"
    using len by (simp add: cachePut_def MAX_CACHE_SIZE_def ev cacheSet_def nokey)
  moreover have "putAll [] (hundredPuts @ [(''cerberus'', getCerberusHardcodedDrops, 1000, 1000)]) =
      cachePut fullCache ''cerberus'' getCerberusHardcodedDrops 1000 1000"
    using reach by (simp add: putAll_def)
  ultimately show ?thesis using reach len by simp
qed

section \<open>Items across the sequences of a parsed table\<close>

lemma inOtherTables_iff:
  "inOtherTables d x \<longleftrightarrow> x \<in> item ` (set (always d) \<union> set (uniques d) \<union> set (tertiary d))"
  by (auto simp: inOtherTables_def list_ex_iff)

lemma inOtherTables_main [simp]: "inOtherTables (d\<lparr>main := z\<rparr>) = inOtherTables d"
  by (simp add: fun_eq_iff inOtherTables_def)

lemma item_dropOfMatch [simp]: "item (dropOfMatch m) = m ! 0"
  by (simp add: dropOfMatch_def)

lemma parseMainDropTable_others [simp]:
  "always (parseMainDropTable content d) = always d"
  "uniques (parseMainDropTable content d) = uniques d"
  "tertiary (parseMainDropTable content d) = tertiary d"
  by (simp_all add: parseMainDropTable_def Let_def)

lemma parseMainDropTable_disjoint:
  assumes "main d = []" "m \<in> set (main (parseMainDropTable content d))"
  shows "\<not> inOtherTables d (item m)"
  using assms by (auto simp: parseMainDropTable_def Let_def split: if_splits)

lemma mainDisjoint_parseMain: "main d = [] \<Longrightarrow> mainDisjoint (parseMainDropTable content d)"
  unfolding mainDisjoint_def
  using parseMainDropTable_disjoint [of d _ content]
  by (auto simp: inOtherTables_iff)

lemma mainDisjoint_fallback: "getFallbackDropData nm = Some t \<Longrightarrow> mainDisjoint t"
proof -
  have 1: "mainDisjoint getCerberusHardcodedDrops"
    by (simp add: mainDisjoint_def getCerberusHardcodedDrops_def)
  have 2: "mainDisjoint kingBlackDragonDrops"
    by (simp add: mainDisjoint_def kingBlackDragonDrops_def)
  assume "getFallbackDropData nm = Some t"
  then show ?thesis using 1 2 by (auto simp: getFallbackDropData_def Let_def split: if_splits)
qed

lemma main_parseSections [simp]: "main (parseSections content d) = main d"
  by (simp add: parseSections_def Let_def split: option.splits)

lemma main_parseMechanics [simp]: "main (parseMechanics content nm d) = main d"
  by (simp add: parseMechanics_def Let_def split: option.splits)

lemma parseDropTables_cases:
  "(\<exists>d. main d = [] \<and> parseDropTables content nm = parseMainDropTable content d) \<or>
   (\<exists>d. main d = [] \<and> parseDropTables content nm = (parseMainDropTable content d)\<lparr>name := nm\<rparr>) \<or>
   getFallbackDropData nm = Some (parseDropTables content nm)"
proof -
  define d6 where "d6 = parseMechanics content nm (parseSections content
      \<lparr>name = nm, always = [], main = [], uniques = [], tertiary = [],
       mainTableRolls = 1, uniqueTableChance = None\<rparr>)"
  have m: "main d6 = []" by (simp add: d6_def)
  have "parseDropTables content nm = parseMainDropTable content d6 \<or>
        parseDropTables content nm = (parseMainDropTable content d6)\<lparr>name := nm\<rparr> \<or>
        getFallbackDropData nm = Some (parseDropTables content nm)"
    unfolding parseDropTables_def d6_def [symmetric] Let_def
    by (cases "getFallbackDropData nm") auto
  then show ?thesis using m by blast
qed

text \<open>
  Claim C2 says that after \<open>parseDropTables\<close> every item name is unique within its sequence
  and an item of several sections is kept only in the sequence of highest priority. The code
  only keeps the main sequence apart from the other three: it removes nothing from the
  always, unique and tertiary sequences. Amended claim: after \<open>parseDropTables\<close> returns, no
  item of the main sequence also occurs in the always, unique or tertiary sequence; an item
  may repeat within a sequence and may occur in more than one of always, uniques and
  tertiary.
\<close>

theorem parseDropTables_main_disjoint:
  "item ` set (main (parseDropTables wikiContent nm)) \<inter>
   item ` (set (always (parseDropTables wikiContent nm)) \<union>
           set (uniques (parseDropTables wikiContent nm)) \<union>
           set (tertiary (parseDropTables wikiContent nm))) = {}"
proof -
  have "mainDisjoint (parseDropTables wikiContent nm)"
    using parseDropTables_cases [of wikiContent nm]
  proof (elim disjE exE conjE)
    fix d assume "main d = []" "parseDropTables wikiContent nm = parseMainDropTable wikiContent d"
    then show ?thesis by (simp add: mainDisjoint_parseMain)
  next
    fix d assume "main d = []"
      "parseDropTables wikiContent nm = (parseMainDropTable wikiContent d)\<lparr>name := nm\<rparr>"
    then show ?thesis using mainDisjoint_parseMain [of d wikiContent]
      by (simp add: mainDisjoint_def)
  next
    assume "getFallbackDropData nm = Some (parseDropTables wikiContent nm)"
    then show ?thesis by (rule mainDisjoint_fallback)
  qed
  then show ?thesis by (simp add: mainDisjoint_def)
qed

theorem parseDropTables_main_disjoint_witness:
  "item ` set (main (parseDropTables duplicatedMarkup ''Chicken'')) \<inter>
   item ` (set (always (parseDropTables duplicatedMarkup ''Chicken'')) \<union>
           set (uniques (parseDropTables duplicatedMarkup ''Chicken'')) \<union>
           set (tertiary (parseDropTables duplicatedMarkup ''Chicken''))) = {}"
  by (rule parseDropTables_main_disjoint)

text \<open>The claim as stated fails on markup that lists an item twice in one section and again
  in another.\<close>

lemma parseDropTables_duplicatedMarkup:
  "parseDropTables duplicatedMarkup ''Chicken'' =
     \<lparr>name = ''Chicken'',
      always =
        [\<lparr>item = ''Bones'', quantity = \<lparr>qmin = 1, qmax = 1\<rparr>, rarity = 1,
          rarityText = ''Always''\<rparr>,
         \<lparr>item = ''Bones'', quantity = \<lparr>qmin = 2, qmax = 2\<rparr>, rarity = 1,
          rarityText = ''Always''\<rparr>],
      main = [], uniques = [],
      tertiary =
        [\<lparr>item = ''Bones'', quantity = \<lparr>qmin = 1, qmax = 1\<rparr>, rarity = 5,
          rarityText = ''1/5''\<rparr>],
      mainTableRolls = 1, uniqueTableChance = None\<rparr>"
  by code_simp

theorem parseDropTables_duplicates_counterexample:
  "\<not> distinct (map item (always (parseDropTables duplicatedMarkup ''Chicken''))) \<and>
   item ` set (always (parseDropTables duplicatedMarkup ''Chicken'')) \<inter>
   item ` set (tertiary (parseDropTables duplicatedMarkup ''Chicken'')) \<noteq> {}"
  by (simp add: parseDropTables_duplicatedMarkup)

section \<open>Fallback data and the cache\<close>

text \<open>
  Claim C3 says that whenever \<open>simulateKills\<close> answers with a table of the fallback
  catalogue, an entry for the lowercased monster name is stored in the cache first. The code
  does so when parsing yields no usable data, and does not when the request throws: for
  \<^verbatim>\<open>simulateKills("cerberus", 5)\<close> with an empty cache and a search that rejects, the
  result is the simulation of the Cerberus table and the cache is still empty.
\<close>

theorem fallback_after_throw_not_cached:
  "simulateKills ''cerberus'' 5
     \<lparr>searchResponse = Rejected, contentResponse = Rejected, nowCheck = 0, nowEvict = 0, nowSet = 0\<rparr>
     g [] = (Result (runSimulation getCerberusHardcodedDrops 5 g), []) \<and>
   cacheGet (snd (simulateKills ''cerberus'' 5
     \<lparr>searchResponse = Rejected, contentResponse = Rejected, nowCheck = 0, nowEvict = 0, nowSet = 0\<rparr>
     g [])) ''cerberus'' = None"
proof -
  have fb: "getFallbackDropData ''cerberus'' = Some getCerberusHardcodedDrops"
    by (simp add: getFallbackDropData_def toLowerCase_def toLowerChar_def)
  show ?thesis
    by (simp add: simulateKills_def tryFetch_def freshEntry_def cacheGet_def fb)
qed

section \<open>Fallback data when the request to the wiki fails\<close>

lemma tryFetch_throws_iff: "tryFetch nm kc env g c = Inl () \<longleftrightarrow> fetchThrows env"
  by (auto simp: tryFetch_def fetchThrows_def Let_def
      split: fetched.splits pages.splits list.splits option.splits)

text \<open>
  Claim C4. If the acquisition throws (a \<^verbatim>\<open>fetch\<close> rejects, a response is not
  \<^verbatim>\<open>ok\<close>, or the body cannot be read) for a monster name that the fallback catalogue
  matches, then \<open>simulateKills\<close> returns a simulation result, not an error: the simulation of
  the fallback table. The request is one that is not answered from the cache, since otherwise
  nothing is fetched. The witness is \<^verbatim>\<open>simulateKills("cerberus", 5)\<close>.
\<close>

theorem simulateKills_fallback_when_fetch_throws:
  assumes "fetchThrows env"
    and "freshEntry c (toLowerCase nm) (nowCheck env) = None"
    and "getFallbackDropData nm = Some fb"
  shows "simulateKills nm kc env g c = (Result (runSimulation fb kc g), c)"
proof -
  have "tryFetch nm kc env g c = Inl ()" using assms(1) by (simp add: tryFetch_throws_iff)
  then show ?thesis using assms(2,3) by (simp add: simulateKills_def)
qed

theorem simulateKills_fallback_when_fetch_throws_witness:
  "fetchThrows
     \<lparr>searchResponse = Rejected, contentResponse = Rejected, nowCheck = 0, nowEvict = 0, nowSet = 0\<rparr> \<and>
   freshEntry [] (toLowerCase ''cerberus'') 0 = None \<and>
   getFallbackDropData ''cerberus'' = Some getCerberusHardcodedDrops \<and>
   simulateKills ''cerberus'' 5
     \<lparr>searchResponse = Rejected, contentResponse = Rejected, nowCheck = 0, nowEvict = 0, nowSet = 0\<rparr>
     (\<lambda>n. 0) [] = (Result (runSimulation getCerberusHardcodedDrops 5 (\<lambda>n. 0)), [])"
proof -
  let ?env = "\<lparr>searchResponse = Rejected, contentResponse = Rejected, nowCheck = 0, nowEvict = 0, nowSet = 0\<rparr>"
  have t: "fetchThrows ?env" by (simp add: fetchThrows_def)
  have f: "freshEntry [] (toLowerCase ''cerberus'') (nowCheck ?env) = None"
    by (simp add: freshEntry_def cacheGet_def)
  have fb: "getFallbackDropData ''cerberus'' = Some getCerberusHardcodedDrops"
    by (simp add: getFallbackDropData_def toLowerCase_def toLowerChar_def)
  show ?thesis
    using simulateKills_fallback_when_fetch_throws [OF t f fb] t f fb by simp
qed

section \<open>Weighted selection stays inside the table\<close>

text \<open>
  Claim C5. For every non-empty list of drops and every random draw,
  \<open>selectWeightedDrop\<close> returns an element of the list: it never returns
  \<^verbatim>\<open>null\<close> and never a drop from outside the list. This covers a list of one element
  and a total weight of zero, where no draw is made.
\<close>

theorem selectWeightedDrop_member:
  "drops \<noteq> [] \<Longrightarrow> \<exists>d \<in> set drops. fst (selectWeightedDrop drops g) = Some d"
proof -
  assume ne: "drops \<noteq> []"
  then have first: "drops ! 0 \<in> set drops" and lst: "drops ! (length drops - 1) \<in> set drops"
    by simp_all
  have pick: "pickDrop (map (\<lambda>d. (d, dropWeight d)) drops) r (drops ! (length drops - 1)) \<in> set drops" for r
    using pickDrop_member [of "map (\<lambda>d. (d, dropWeight d)) drops" r "drops ! (length drops - 1)"] lst
    by (auto simp: image_iff)
  show ?thesis
    using ne first pick
    by (auto simp: selectWeightedDrop_def Let_def split: prod.splits)
qed

theorem selectWeightedDrop_member_witness:
  "main kingBlackDragonDrops \<noteq> [] \<and>
   (\<exists>d \<in> set (main kingBlackDragonDrops).
      fst (selectWeightedDrop (main kingBlackDragonDrops) (\<lambda>n. 1 / 2)) = Some d)"
proof -
  have ne: "main kingBlackDragonDrops \<noteq> []" by (simp add: kingBlackDragonDrops_def)
  show ?thesis using ne selectWeightedDrop_member [OF ne] by blast
qed

section \<open>Rarity\<close>

lemma set_trim: "set (trim s) \<subseteq> set s"
proof -
  have "set (dropWhile isSpace (rev (dropWhile isSpace s))) \<subseteq> set (rev (dropWhile isSpace s))"
    by (rule subsetI) (rule set_dropWhileD)
  moreover have "set (dropWhile isSpace s) \<subseteq> set s" by (rule subsetI) (rule set_dropWhileD)
  ultimately show ?thesis by (auto simp: trim_def)
qed

lemma parseRarity_fraction:
  assumes "0 < n" "0 < d"
  shows "parseRarity (dec n @ ''/'' @ dec d) = real d / real n"
proof -
  define s where "s = dec n @ CHR ''/'' # dec d"
  have tr: "trim s = s" and sp: "split (CHR ''/'') s = [dec n, dec d]"
    unfolding s_def by (rule pair_clean, simp)+
  have ne: "s \<noteq> []" and slash: "CHR ''/'' \<in> set s" by (simp_all add: s_def)
  have "fractionRarity s = Some (real d / real n)"
    using slash assms
    by (simp add: fractionRarity_def sp Let_def parseIntOr_dec)
  then have "parseRarity s = real d / real n" using ne by (simp add: parseRarity_def tr)
  then show ?thesis by (simp add: s_def)
qed

lemma parseRarity_default:
  assumes "CHR ''/'' \<notin> set s" "\<forall>v. parseInt (trim s) = Some v \<longrightarrow> v \<le> 0"
    "rarityMap (toLowerCase (trim s)) = None"
  shows "parseRarity s = 128"
proof -
  have "CHR ''/'' \<notin> set (trim s)" using assms(1) set_trim [of s] by blast
  then have f: "fractionRarity (trim s) = None" by (simp add: fractionRarity_def)
  have t: "textRarity (trim s) = 128" using assms(3) by (simp add: textRarity_def)
  show ?thesis using assms(2)
    by (auto simp: parseRarity_def f t Let_def split: option.splits)
qed

text \<open>
  Claim C6 says that \<open>parseRarity\<close> maps a fraction \<open>n/d\<close> with \<open>n, d > 0\<close> to \<open>d/n\<close>,
  the five textual rarities to 1, 8, 32, 128 and 512, and any unparseable string to 128.
  The last part fails for a string with a slash: a part of the fraction that is not a number
  is replaced by 1, so \<^verbatim>\<open>N/A\<close> yields 1. Amended claim, for ASCII text: a fraction
  \<open>n/d\<close> of decimal numerals with \<open>0 < n, d < 2 ^ 53\<close> yields the quotient \<open>d/n\<close> (that
  of the real numbers, of which the program returns the nearest double); the five textual
  rarities yield 1, 8, 32, 128 and 512; the default 128 is the result for any string without a
  slash that does not start with a positive integer and, once trimmed and in lower case, is
  neither a name of the table nor the name of a member that every object inherits
  (\<^verbatim>\<open>constructor\<close>, \<^verbatim>\<open>__proto__\<close>), for which the program returns that member.
\<close>

theorem parseRarity_cases:
  "(0 < n \<and> n < 2 ^ 53 \<and> 0 < d \<and> d < 2 ^ 53 \<longrightarrow>
      parseRarity (dec n @ ''/'' @ dec d) = real d / real n) \<and>
   parseRarity ''1/512'' = 512 \<and> parseRarity ''5/130'' = 26 \<and>
   parseRarity ''always'' = 1 \<and> parseRarity ''common'' = 8 \<and> parseRarity ''uncommon'' = 32 \<and>
   parseRarity ''rare'' = 128 \<and> parseRarity ''very rare'' = 512 \<and>
   (asciiText s \<and> CHR ''/'' \<notin> set s \<and> (\<forall>v. parseInt (trim s) = Some v \<longrightarrow> v \<le> 0) \<and>
    toLowerCase (trim s) \<notin> set objectMembers \<and>
    rarityMap (toLowerCase (trim s)) = None \<longrightarrow> parseRarity s = 128)"
proof -
  have ex: "parseRarity ''1/512'' = 512" "parseRarity ''5/130'' = 26"
    "parseRarity ''always'' = 1" "parseRarity ''common'' = 8" "parseRarity ''uncommon'' = 32"
    "parseRarity ''rare'' = 128" "parseRarity ''very rare'' = 512"
    by code_simp+
  show ?thesis using ex parseRarity_fraction [of n d] parseRarity_default [of s] by blast
qed

theorem parseRarity_cases_witness:
  "(0::nat) < 5 \<and> (5::nat) < 2 ^ 53 \<and> (0::nat) < 130 \<and> (130::nat) < 2 ^ 53 \<and>
   parseRarity (dec 5 @ ''/'' @ dec 130) = 26 \<and>
   dec 5 @ ''/'' @ dec 130 = ''5/130'' \<and>
   asciiText ''unknown'' \<and> CHR ''/'' \<notin> set ''unknown'' \<and> parseInt (trim ''unknown'') = None \<and>
   toLowerCase (trim ''unknown'') \<notin> set objectMembers \<and>
   rarityMap (toLowerCase (trim ''unknown'')) = None \<and> parseRarity ''unknown'' = 128"
proof -
  have d: "dec 5 @ ''/'' @ dec 130 = ''5/130''" by (simp add: dec.simps digitChar_def)
  have b: "(5::nat) < 2 ^ 53" "(130::nat) < 2 ^ 53" by simp_all
  have a: "asciiText ''unknown''" by (simp add: asciiText_def)
  have p: "parseInt (trim ''unknown'') = None" by code_simp
  have l: "toLowerCase (trim ''unknown'') = ''unknown''" by code_simp
  have r: "rarityMap (toLowerCase (trim ''unknown'')) = None" by code_simp
  have m: "toLowerCase (trim ''unknown'') \<notin> set objectMembers"
    unfolding l by (simp add: objectMembers_def)
  have s: "CHR ''/'' \<notin> set ''unknown''" by simp
  have z: "(0::nat) < 5" "(0::nat) < 130" by simp_all
  have v: "\<forall>v. parseInt (trim ''unknown'') = Some v \<longrightarrow> v \<le> 0" using p by simp
  have "parseRarity (dec 5 @ ''/'' @ dec 130) = real 130 / real 5"
    and "parseRarity ''unknown'' = 128"
    using parseRarity_cases [of 5 130 "''unknown''"] z b a v m r s by blast+
  then show ?thesis using d b a p m r s by simp
qed

theorem parseRarity_slash_counterexample:
  "parseRarity ''N/A'' = 1 \<and> parseRarity ''N/A'' \<noteq> 128"
proof -
  have "parseRarity ''N/A'' = 1" by code_simp
  then show ?thesis by simp
qed

section \<open>Quantity\<close>

lemma parseQuantity_cleaned:
  assumes "s \<noteq> []" "trim (removeMatches notePattern s) = c" "c \<noteq> []"
  shows "parseQuantity s =
     (if CHR ''-'' \<in> set c then
        (let parts = split (CHR ''-'') c;
             mn = parseIntOr (parts ! 0) 1;
             mx = parseIntOr (parts ! 1) mn
         in \<lparr>qmin = min mn mx, qmax = max mn mx\<rparr>)
      else (let qty = parseIntOr c 1 in \<lparr>qmin = qty, qmax = qty\<rparr>))"
  using assms by (simp add: parseQuantity_def Let_def)

lemma parseQuantity_range:
  assumes "0 < lo" "0 < hi"
  shows "parseQuantity (dec lo @ ''-'' @ dec hi) = \<lparr>qmin = int (min lo hi), qmax = int (max lo hi)\<rparr>"
    and "a \<noteq> [] \<Longrightarrow> CHR '')'' \<notin> set a \<Longrightarrow>
         parseQuantity (dec lo @ ''-'' @ dec hi @ '' ('' @ a @ '')'') =
           \<lparr>qmin = int (min lo hi), qmax = int (max lo hi)\<rparr>"
proof -
  define s where "s = dec lo @ CHR ''-'' # dec hi"
  have tr: "trim s = s" and sp: "split (CHR ''-'') s = [dec lo, dec hi]"
    and cl: "\<forall>c \<in> set s. \<not> isSpace c \<and> c \<noteq> CHR ''(''"
    unfolding s_def by (rule pair_clean, simp)+
  have ne: "s \<noteq> []" and dash: "CHR ''-'' \<in> set s" by (simp_all add: s_def)
  have np: "CHR ''('' \<notin> set s" using cl by blast
  have mm: "\<lparr>qmin = min (int lo) (int hi), qmax = max (int lo) (int hi)\<rparr> =
            \<lparr>qmin = int (min lo hi), qmax = int (max lo hi)\<rparr>"
    by (simp add: min_def max_def)
  have res: "parseQuantity t = \<lparr>qmin = int (min lo hi), qmax = int (max lo hi)\<rparr>"
    if "trim (removeMatches notePattern t) = s" "t \<noteq> []" for t
  proof -
    have "parseQuantity t =
       (let parts = split (CHR ''-'') s;
             mn = parseIntOr (parts ! 0) 1;
             mx = parseIntOr (parts ! 1) mn
         in \<lparr>qmin = min mn mx, qmax = max mn mx\<rparr>)"
      using parseQuantity_cleaned [OF that(2) that(1) ne] dash by simp
    also have "\<dots> = \<lparr>qmin = min (int lo) (int hi), qmax = max (int lo) (int hi)\<rparr>"
      unfolding sp Let_def by (simp add: parseIntOr_dec [OF assms(1)] parseIntOr_dec [OF assms(2)])
    finally show ?thesis using mm by simp
  qed
  have "parseQuantity s = \<lparr>qmin = int (min lo hi), qmax = int (max lo hi)\<rparr>"
    by (rule res) (simp_all add: removeMatches_no_paren [OF np] tr ne)
  then show "parseQuantity (dec lo @ ''-'' @ dec hi) = \<lparr>qmin = int (min lo hi), qmax = int (max lo hi)\<rparr>"
    by (simp add: s_def)
  assume a: "a \<noteq> []" "CHR '')'' \<notin> set a"
  have "removeMatches notePattern (s @ '' ('' @ a @ '')'') = s"
    by (rule removeMatches_note [OF cl a])
  then have "parseQuantity (s @ '' ('' @ a @ '')'') = \<lparr>qmin = int (min lo hi), qmax = int (max lo hi)\<rparr>"
    by (intro res) (simp_all add: tr)
  then show "parseQuantity (dec lo @ ''-'' @ dec hi @ '' ('' @ a @ '')'') =
           \<lparr>qmin = int (min lo hi), qmax = int (max lo hi)\<rparr>"
    by (simp add: s_def)
qed

lemma parseQuantity_bare:
  assumes "0 < n"
  shows "parseQuantity (dec n) = \<lparr>qmin = int n, qmax = int n\<rparr>"
    and "a \<noteq> [] \<Longrightarrow> CHR '')'' \<notin> set a \<Longrightarrow>
         parseQuantity (dec n @ '' ('' @ a @ '')'') = \<lparr>qmin = int n, qmax = int n\<rparr>"
proof -
  have tr: "trim (dec n) = dec n"
    using dec_hd_last [of n] dec_nonempty [of n] by (intro trim_id) simp_all
  have nd: "CHR ''-'' \<notin> set (dec n)" and np: "CHR ''('' \<notin> set (dec n)"
    and cl: "\<forall>c \<in> set (dec n). \<not> isSpace c \<and> c \<noteq> CHR ''(''"
    using dec_chars [of _ n] by auto
  have res: "trim (removeMatches notePattern s) = dec n \<Longrightarrow> s \<noteq> [] \<Longrightarrow>
     parseQuantity s = \<lparr>qmin = int n, qmax = int n\<rparr>" for s
    by (subst parseQuantity_cleaned [of s "dec n"])
       (simp_all add: nd Let_def parseIntOr_dec assms dec_nonempty)
  show "parseQuantity (dec n) = \<lparr>qmin = int n, qmax = int n\<rparr>"
    using res [of "dec n"] by (simp add: removeMatches_no_paren [OF np] tr dec_nonempty)
  assume a: "a \<noteq> []" "CHR '')'' \<notin> set a"
  have "removeMatches notePattern (dec n @ '' ('' @ a @ '')'') = dec n"
    by (rule removeMatches_note [OF cl a])
  then show "parseQuantity (dec n @ '' ('' @ a @ '')'') = \<lparr>qmin = int n, qmax = int n\<rparr>"
    using res [of "dec n @ '' ('' @ a @ '')''"] by (simp add: tr dec_nonempty)
qed

lemma parseQuantity_unparseable:
  assumes "list_all (\<lambda>p. parseInt p = None) (split (CHR ''-'') (trim (removeMatches notePattern s)))"
  shows "parseQuantity s = \<lparr>qmin = 1, qmax = 1\<rparr>"
proof -
  let ?c = "trim (removeMatches notePattern s)"
  have all: "p \<in> set (split (CHR ''-'') ?c) \<Longrightarrow> parseIntOr p d = d" for p d
    using assms by (auto simp: list_all_iff parseIntOr_def)
  show ?thesis
  proof (cases "s = [] \<or> ?c = []")
    case True
    then show ?thesis by (auto simp: parseQuantity_def Let_def)
  next
    case False
    show ?thesis
    proof (cases "CHR ''-'' \<in> set ?c")
      case True
      from split_length [OF True] have "0 < length (split (CHR ''-'') ?c)"
        "1 < length (split (CHR ''-'') ?c)" by linarith+
      then have "split (CHR ''-'') ?c ! 0 \<in> set (split (CHR ''-'') ?c)"
        "split (CHR ''-'') ?c ! 1 \<in> set (split (CHR ''-'') ?c)"
        by simp_all
      then show ?thesis using False True
        by (subst parseQuantity_cleaned [of s ?c]) (simp_all add: Let_def all)
    next
      case nodash: False
      then have "split (CHR ''-'') ?c = [?c]" by (rule split_no_sep)
      then have "parseIntOr ?c 1 = 1" using all [of ?c 1] by simp
      then show ?thesis using False nodash
        by (subst parseQuantity_cleaned [of s ?c]) (simp_all add: Let_def)
    qed
  qed
qed

lemma parseQuantity_bounds:
  "1 \<le> qmin (parseQuantity s) \<and> qmin (parseQuantity s) \<le> qmax (parseQuantity s)"
proof -
  let ?c = "trim (removeMatches notePattern s)"
  show ?thesis
  proof (cases "s = [] \<or> ?c = []")
    case True
    then show ?thesis by (auto simp: parseQuantity_def Let_def)
  next
    case False
    show ?thesis
    proof (cases "CHR ''-'' \<in> set ?c")
      case True
      let ?parts = "split (CHR ''-'') ?c"
      from split_length [OF True] have "0 < length ?parts" "1 < length ?parts" by linarith+
      then have "?parts ! 0 \<in> set ?parts" "?parts ! 1 \<in> set ?parts"
        by simp_all
      then have n0: "CHR ''-'' \<notin> set (?parts ! 0)" and n1: "CHR ''-'' \<notin> set (?parts ! 1)"
        by (auto dest: split_parts_no_sep)
      have mn: "1 \<le> parseIntOr (?parts ! 0) 1" by (rule parseIntOr_pos [OF n0]) simp
      have mx: "1 \<le> parseIntOr (?parts ! 1) (parseIntOr (?parts ! 0) 1)"
        by (rule parseIntOr_pos [OF n1 mn])
      have "parseQuantity s =
          \<lparr>qmin = min (parseIntOr (?parts ! 0) 1) (parseIntOr (?parts ! 1) (parseIntOr (?parts ! 0) 1)),
           qmax = max (parseIntOr (?parts ! 0) 1) (parseIntOr (?parts ! 1) (parseIntOr (?parts ! 0) 1))\<rparr>"
        using False True by (subst parseQuantity_cleaned [of s ?c]) (simp_all add: Let_def)
      then show ?thesis using mn mx by simp
    next
      case nodash: False
      have "1 \<le> parseIntOr ?c 1" by (rule parseIntOr_pos [OF nodash]) simp
      moreover have "parseQuantity s = \<lparr>qmin = parseIntOr ?c 1, qmax = parseIntOr ?c 1\<rparr>"
        using False nodash by (subst parseQuantity_cleaned [of s ?c]) (simp_all add: Let_def)
      ultimately show ?thesis by simp
    qed
  qed
qed

text \<open>
  Claim C7 says that \<open>parseQuantity\<close> strips notes in parentheses, maps a range
  \<open>lo-hi\<close> to \<open>{min lo hi, max lo hi}\<close> in either order, a bare number \<open>n\<close> to \<open>{n, n}\<close>
  and unparseable input to \<open>{1, 1}\<close>, and that every result has \<open>1 \<le> min \<le> max\<close>. The
  part on unparseable input fails: a part of a range that is not a number is replaced, the
  lower one by 1 and the upper one by the lower one, so \<^verbatim>\<open>a-7\<close>, which \<^verbatim>\<open>parseInt\<close>
  does not read, yields \<open>{1, 7}\<close>, and \<^verbatim>\<open>-5\<close> is read as a range with no lower part and
  yields \<open>{1, 5}\<close>. Amended claim, for ASCII text: the range and the bare number are as
  stated for decimal numerals of numbers from 1 to below \<open>2 ^ 53\<close>, with or without a note in
  parentheses after them; input whose text, once cleaned, has no part between dashes that
  starts with a number yields \<open>{1, 1}\<close>; every result has \<open>1 \<le> min \<le> max\<close>.
\<close>

theorem parseQuantity_normalises:
  "(0 < lo \<and> lo < 2 ^ 53 \<and> 0 < hi \<and> hi < 2 ^ 53 \<longrightarrow>
      parseQuantity (dec lo @ ''-'' @ dec hi) = \<lparr>qmin = int (min lo hi), qmax = int (max lo hi)\<rparr> \<and>
      (a \<noteq> [] \<and> CHR '')'' \<notin> set a \<longrightarrow>
         parseQuantity (dec lo @ ''-'' @ dec hi @ '' ('' @ a @ '')'') =
           \<lparr>qmin = int (min lo hi), qmax = int (max lo hi)\<rparr>)) \<and>
   (0 < n \<and> n < 2 ^ 53 \<longrightarrow>
      parseQuantity (dec n) = \<lparr>qmin = int n, qmax = int n\<rparr> \<and>
      (a \<noteq> [] \<and> CHR '')'' \<notin> set a \<longrightarrow>
         parseQuantity (dec n @ '' ('' @ a @ '')'') = \<lparr>qmin = int n, qmax = int n\<rparr>)) \<and>
   (asciiText s \<and>
    list_all (\<lambda>p. parseInt p = None) (split (CHR ''-'') (trim (removeMatches notePattern s))) \<longrightarrow>
      parseQuantity s = \<lparr>qmin = 1, qmax = 1\<rparr>) \<and>
   1 \<le> qmin (parseQuantity s) \<and> qmin (parseQuantity s) \<le> qmax (parseQuantity s) \<and>
   parseQuantity ''5-10'' = \<lparr>qmin = 5, qmax = 10\<rparr> \<and>
   parseQuantity ''10-5'' = \<lparr>qmin = 5, qmax = 10\<rparr>"
proof -
  have ex: "parseQuantity ''5-10'' = \<lparr>qmin = 5, qmax = 10\<rparr>"
    "parseQuantity ''10-5'' = \<lparr>qmin = 5, qmax = 10\<rparr>"
    by code_simp+
  show ?thesis
    using ex parseQuantity_range(1) [of lo hi] parseQuantity_range(2) [of lo hi a]
      parseQuantity_bare(1) [of n] parseQuantity_bare(2) [of n a]
      parseQuantity_unparseable [of s] parseQuantity_bounds [of s]
    by blast
qed

theorem parseQuantity_normalises_witness:
  "(0::nat) < 10 \<and> (10::nat) < 2 ^ 53 \<and> (0::nat) < 5 \<and> (5::nat) < 2 ^ 53 \<and>
   ''noted'' \<noteq> [] \<and> CHR '')'' \<notin> set ''noted'' \<and>
   dec 10 @ ''-'' @ dec 5 @ '' ('' @ ''noted'' @ '')'' = ''10-5 (noted)'' \<and>
   parseQuantity (dec 10 @ ''-'' @ dec 5 @ '' ('' @ ''noted'' @ '')'') = \<lparr>qmin = 5, qmax = 10\<rparr> \<and>
   (0::nat) < 7 \<and> (7::nat) < 2 ^ 53 \<and>
   parseQuantity (dec 7 @ '' ('' @ ''noted'' @ '')'') = \<lparr>qmin = 7, qmax = 7\<rparr> \<and>
   asciiText ''varies'' \<and>
   list_all (\<lambda>p. parseInt p = None) (split (CHR ''-'') (trim (removeMatches notePattern ''varies''))) \<and>
   parseQuantity ''varies'' = \<lparr>qmin = 1, qmax = 1\<rparr>"
proof -
  have d: "dec 10 @ ''-'' @ dec 5 @ '' ('' @ ''noted'' @ '')'' = ''10-5 (noted)''"
    by (simp add: dec.simps digitChar_def)
  have u: "list_all (\<lambda>p. parseInt p = None)
             (split (CHR ''-'') (trim (removeMatches notePattern ''varies'')))"
    by code_simp
  have t: "asciiText ''varies''" by (simp add: asciiText_def)
  have n: "''noted'' \<noteq> []" "CHR '')'' \<notin> set ''noted''" by simp_all
  have p: "(0::nat) < 10" "(0::nat) < 5" "(0::nat) < 7" by simp_all
  have b: "(10::nat) < 2 ^ 53" "(5::nat) < 2 ^ 53" "(7::nat) < 2 ^ 53" by simp_all
  have m: "int (min 10 5) = 5" "int (max 10 5) = 10" by simp_all
  from parseQuantity_normalises [of 10 5 "''noted''" 7 "''varies''"] n u p b t
  have "parseQuantity (dec 10 @ ''-'' @ dec 5 @ '' ('' @ ''noted'' @ '')'') =
          \<lparr>qmin = int (min 10 5), qmax = int (max 10 5)\<rparr>"
    and "parseQuantity (dec 7 @ '' ('' @ ''noted'' @ '')'') = \<lparr>qmin = int 7, qmax = int 7\<rparr>"
    and "parseQuantity ''varies'' = \<lparr>qmin = 1, qmax = 1\<rparr>"
    by blast+
  then show ?thesis using d u n p b t unfolding m by simp
qed

theorem parseQuantity_partial_counterexample:
  "parseInt ''a-7'' = None \<and>
   parseQuantity ''a-7'' = \<lparr>qmin = 1, qmax = 7\<rparr> \<and>
   parseQuantity ''a-7'' \<noteq> \<lparr>qmin = 1, qmax = 1\<rparr> \<and>
   parseQuantity ''-5'' = \<lparr>qmin = 1, qmax = 5\<rparr> \<and>
   parseQuantity ''-5'' \<noteq> \<lparr>qmin = 1, qmax = 1\<rparr> \<and>
   parseQuantity ''-5'' \<noteq> \<lparr>qmin = - 5, qmax = - 5\<rparr>"
proof -
  have "parseInt ''a-7'' = None" "parseQuantity ''a-7'' = \<lparr>qmin = 1, qmax = 7\<rparr>"
    "parseQuantity ''-5'' = \<lparr>qmin = 1, qmax = 5\<rparr>"
    by code_simp+
  then show ?thesis by simp
qed

section \<open>Always drops in the exact mode\<close>



section \<open>Always drops in the approximated mode\<close>



section \<open>The jittered count of the approximated mode\<close>

lemma jitter_lower:
  assumes "0 \<le> e" "0 \<le> u"
  shows "- (1 / 16) \<le> e + (u - 1 / 2) * sqrt e"
proof -
  have sq: "sqrt e * sqrt e = e" using assms(1) by simp
  have "0 \<le> (sqrt e - 1 / 4) * (sqrt e - 1 / 4)" by simp
  also have "(sqrt e - 1 / 4) * (sqrt e - 1 / 4) = sqrt e * sqrt e - sqrt e / 2 + 1 / 16"
    by (simp add: algebra_simps)
  also have "\<dots> = e - sqrt e / 2 + 1 / 16" by (simp only: sq)
  finally have low: "- (1 / 16) \<le> e - sqrt e / 2" by simp
  have "0 \<le> u * sqrt e" using assms by simp
  moreover have "e + (u - 1 / 2) * sqrt e = (e - sqrt e / 2) + u * sqrt e"
    by (simp add: algebra_simps)
  ultimately show ?thesis using low by linarith
qed

lemma round_nonneg: "- (1 / 16) \<le> (x::real) \<Longrightarrow> 0 \<le> round x"
  by (simp add: round_def)

lemma actualDropsOf_nonneg: "0 \<le> e \<Longrightarrow> 0 \<le> u \<Longrightarrow> 0 \<le> actualDropsOf e u"
  unfolding actualDropsOf_def by (rule round_nonneg) (rule jitter_lower)

lemma optUniqueEvents_length:
  "length (fst (snd (optUniqueEvents dr kc a (lt, uds, g)))) = length uds + nat a"
proof -
  have "length (fst (snd (foldl (\<lambda>(lt, uds, g) i.
              let (qty, g1) = getRandomQuantity (quantity dr) g;
                  (v, g2) = random g1
              in (addToLoot lt (item dr) qty,
                  uds @ [\<lparr>uitem = item dr, killNumber = \<lfloor>v * real kc\<rfloor> + 1,
                           urarity = rarityText dr\<rparr>], g2)) st xs))) = length (fst (snd st)) + length xs" for st and xs :: "nat list"
    by (induction xs arbitrary: st) (auto simp: Let_def split: prod.splits)
  then show ?thesis by (simp add: optUniqueEvents_def)
qed

lemma optTertiaryEvents_length:
  "length (fst (optTertiaryEvents dr kc a (uds, g))) = length uds + nat a"
proof -
  have "length (fst (foldl (\<lambda>(uds, g) i.
              let (v, g1) = random g
              in (uds @ [\<lparr>uitem = item dr, killNumber = \<lfloor>v * real kc\<rfloor> + 1,
                           urarity = rarityText dr\<rparr>], g1)) st xs)) = length (fst st) + length xs" for st and xs :: "nat list"
    by (induction xs arbitrary: st) (auto simp: Let_def split: prod.splits)
  then show ?thesis by (simp add: optTertiaryEvents_def)
qed

lemma optUniqueEvents_loot_mono:
  assumes "goodRng g" "0 \<le> qmin (quantity dr)" "qmin (quantity dr) \<le> qmax (quantity dr)"
  shows "lootOf lt i \<le> lootOf (fst (optUniqueEvents dr kc a (lt, uds, g))) i"
proof -
  let ?P = "\<lambda>st. goodRng (snd (snd st)) \<and> lootOf lt i \<le> lootOf (fst st) i"
  have "?P (optUniqueEvents dr kc a (lt, uds, g))"
    unfolding optUniqueEvents_def
  proof (rule foldl_invariant)
    show "?P (lt, uds, g)" using assms(1) by simp
  next
    fix s :: sim_state and x :: nat
    assume P: "?P s"
    obtain l u' g' where s: "s = (l, u', g')" by (cases s) auto
    have gg: "goodRng g'" and le: "lootOf lt i \<le> lootOf l i" using P s by simp_all
    from getRandomQuantity_good [OF gg assms(2,3)]
    have q0: "0 \<le> fst (getRandomQuantity (quantity dr) g')"
      and g1: "goodRng (snd (getRandomQuantity (quantity dr) g'))" by simp_all
    have g2: "goodRng (snd (random (snd (getRandomQuantity (quantity dr) g'))))"
      using goodRng_random [OF g1] by simp
    show "?P ((case s of (lt, uds, g) \<Rightarrow> \<lambda>i.
              let (qty, g1) = getRandomQuantity (quantity dr) g;
                  (v, g2) = random g1
              in (addToLoot lt (item dr) qty,
                  uds @ [\<lparr>uitem = item dr, killNumber = \<lfloor>v * real kc\<rfloor> + 1,
                           urarity = rarityText dr\<rparr>], g2)) x)"
      using q0 g2 le by (simp add: s Let_def lootOf_addToLoot case_prod_unfold)
  qed
  then show ?thesis by simp
qed

text \<open>
  Claim C10. For a drop of rarity greater than zero, any kill count and a draw \<open>u\<close> in
  \<open>[0, 1)\<close>, the argument of the rounding, \<open>expected + (u - 0.5) * sqrt expected\<close> with
  \<open>expected = killCount / rarity\<close>, is at least \<open>-1/16\<close>, so the jittered count is never
  negative. The loop over the unique drops with their own rates and the loop over the notable
  events of a tertiary drop therefore emit exactly that many events, and neither loop adds a
  negative amount of loot: with draws in \<open>[0, 1)\<close> and a quantity range that is not negative,
  no total of the loot decreases in the loop of the unique drops, and the amount added for a
  tertiary drop is not negative. Numbers are real numbers here, not doubles.
\<close>

theorem approximated_counts_nonneg:
  assumes "0 < rarity dr" "0 \<le> u" "u < 1"
  shows "- (1 / 16) \<le> real kc / rarity dr + (u - 1 / 2) * sqrt (real kc / rarity dr) \<and>
         0 \<le> actualDropsOf (real kc / rarity dr) u \<and>
         int (length (fst (snd (optUniqueEvents dr kc (actualDropsOf (real kc / rarity dr) u) (lt, uds, g)))))
           = int (length uds) + actualDropsOf (real kc / rarity dr) u \<and>
         int (length (fst (optTertiaryEvents dr kc (actualDropsOf (real kc / rarity dr) u) (uds, g))))
           = int (length uds) + actualDropsOf (real kc / rarity dr) u \<and>
         (goodRng g \<and> validQuantity (quantity dr) \<longrightarrow>
            (\<forall>i. lootOf lt i \<le> lootOf (fst (optUniqueEvents dr kc (actualDropsOf (real kc / rarity dr) u) (lt, uds, g))) i) \<and>
            0 \<le> round (real_of_int (actualDropsOf (real kc / rarity dr) u) * avgQuantity dr))"
proof -
  have e0: "0 \<le> real kc / rarity dr" using assms(1) by simp
  have a0: "0 \<le> actualDropsOf (real kc / rarity dr) u"
    by (rule actualDropsOf_nonneg [OF e0 assms(2)])
  have avg: "validQuantity (quantity dr) \<Longrightarrow> 0 \<le> avgQuantity dr"
    by (simp add: validQuantity_def avgQuantity_def)
  have rnd: "validQuantity (quantity dr) \<Longrightarrow>
      0 \<le> round (real_of_int (actualDropsOf (real kc / rarity dr) u) * avgQuantity dr)"
  proof -
    assume "validQuantity (quantity dr)"
    then have "0 \<le> real_of_int (actualDropsOf (real kc / rarity dr) u) * avgQuantity dr"
      using a0 avg by simp
    then show ?thesis by (intro round_nonneg) linarith
  qed
  show ?thesis
    using jitter_lower [OF e0 assms(2)] a0 rnd
    by (auto simp: optUniqueEvents_length optTertiaryEvents_length validQuantity_def
        intro: optUniqueEvents_loot_mono)
qed

theorem approximated_counts_nonneg_witness:
  "0 < rarity \<lparr>item = ''Hellpuppy'', quantity = \<lparr>qmin = 1, qmax = 1\<rparr>, rarity = 3000,
                rarityText = ''1/3000''\<rparr> \<and>
   (0::real) \<le> 0 \<and> (0::real) < 1 \<and> goodRng (\<lambda>n. 0) \<and> validQuantity \<lparr>qmin = 1, qmax = 1\<rparr> \<and>
   actualDropsOf (real 12000 / 3000) 0 = 3 \<and>
   length (fst (optTertiaryEvents
      \<lparr>item = ''Hellpuppy'', quantity = \<lparr>qmin = 1, qmax = 1\<rparr>, rarity = 3000,
       rarityText = ''1/3000''\<rparr> 12000 3 ([], \<lambda>n. 0))) = 3 \<and>
   (\<forall>i. lootOf Map.empty i \<le> lootOf (fst (optUniqueEvents
      \<lparr>item = ''Hellpuppy'', quantity = \<lparr>qmin = 1, qmax = 1\<rparr>, rarity = 3000,
       rarityText = ''1/3000''\<rparr> 12000 3 (Map.empty, [], \<lambda>n. 0))) i)"
proof -
  have a: "actualDropsOf (real 12000 / 3000) 0 = 3"
    by (simp add: actualDropsOf_def round_def)
  have g: "goodRng (\<lambda>n. 0)" by (simp add: goodRng_def)
  have v: "validQuantity \<lparr>qmin = 1, qmax = 1\<rparr>" by (simp add: validQuantity_def)
  show ?thesis
    using approximated_counts_nonneg [of
        "\<lparr>item = ''Hellpuppy'', quantity = \<lparr>qmin = 1, qmax = 1\<rparr>, rarity = 3000,
          rarityText = ''1/3000''\<rparr>" 0 12000 Map.empty "[]" "\<lambda>n. 0"] a g v
    by simp
qed

end
